(* ===== verification/Prelude.thy ===== *)
theory Prelude
  imports Complex_Main "HOL-Library.Sublist"
begin

text \<open>
  Shared vocabulary of the development: the types that name the program's data
  (times in seconds, Python exceptions as values), the collections of lemmas the
  component theories feed and use, and generic facts on lists that several
  components need (chunks taken with \<open>take\<close>/\<open>drop\<close>, runs removed with
  \<open>dropWhile\<close>).
\<close>

section \<open>Types of the model\<close>

text \<open>
  Timestamps of \<^verbatim>\<open>src/main.py\<close> are Python floats in seconds. A float is a dyadic
  rational, so a timestamp is modelled by its exact value in \<open>rat\<close>; the arithmetic
  \<^verbatim>\<open>turn.start - margin\<close> and \<^verbatim>\<open>turn.end + margin\<close> is then exact, where IEEE
  doubles would round to the nearest double.
\<close>

type_synonym time = rat

text \<open>
  The Python exceptions the modelled code can raise. An exception is a value
  \<open>Inl e\<close> of a sum type, so every raise of the source is a branch of the model.
  \<open>ExternalError\<close> is an exception raised inside a collaborator (the summarisation
  pipeline, the audio decoders, the recogniser), whose text the program never inspects;
  \<open>FileNotFoundError\<close> is the \<^verbatim>\<open>OSError\<close> of opening a path that does not exist.
\<close>

datatype py_error =
    ValueError string
  | IndexError string
  | KeyError string
  | ZeroDivisionError string
  | FileNotFoundError string
  | ExternalError string

section \<open>Lemma collections\<close>

named_theorems char_class_simps
  "evaluation of the character classes of Python's str methods and re module"
named_theorems text_simps
  "facts on the string operations shared by the text components"
named_theorems store_wf_intros
  "operations of the application that keep every WAV file of the file store well formed"
named_theorems store_dom_intros
  "operations of the application that remove no file of the file store"

section \<open>Generic list facts\<close>

lemma last_dropWhile: "dropWhile P xs \<noteq> [] \<Longrightarrow> last (dropWhile P xs) = last xs"
  by (induction xs) auto

lemma drop_shorter [simp]: "xs \<noteq> [] \<Longrightarrow> 0 < n \<Longrightarrow> length (drop n xs) < length xs"
  by (cases xs) auto

end
