(* ===== verification/PyStr.thy ===== *)
theory PyStr
  imports Prelude
begin

text \<open>
  The Python string operations that \<^verbatim>\<open>src/main.py\<close> calls, modelled from the
  semantics of CPython's \<^verbatim>\<open>str\<close> and \<^verbatim>\<open>re\<close>: the character classes \<^verbatim>\<open>\s\<close> and
  \<^verbatim>\<open>\w\<close>, ASCII case folding for \<^verbatim>\<open>re.IGNORECASE\<close>, \<^verbatim>\<open>str.strip()\<close>,
  \<^verbatim>\<open>sep.join(xs)\<close>, \<^verbatim>\<open>s.split(sep)\<close> and the fixed-point format \<^verbatim>\<open>%.2f\<close>.
  A Python \<^verbatim>\<open>str\<close> is a sequence of code points; Isabelle's \<open>char\<close> has 256
  values, so a character is read as the code point \<open>of_char c\<close> and the model
  covers text whose code points are below 256 (ASCII and Latin-1), with the classes
  of that range exactly as CPython's Unicode tables give them.
\<close>

abbreviation newline :: char where
  "newline \<equiv> CHR 0x0A"

section \<open>Character classes\<close>

text \<open>\<^verbatim>\<open>str.isspace\<close>, which is also the class \<^verbatim>\<open>\s\<close> of a \<^verbatim>\<open>str\<close> pattern:
  tab to carriage return, the separators 0x1C to 0x1F, space, NEL and NO-BREAK SPACE.\<close>

definition py_isspace :: "char \<Rightarrow> bool" where
  "py_isspace c =
     (let n = of_char c :: nat in
      (9 \<le> n \<and> n \<le> 13) \<or> (28 \<le> n \<and> n \<le> 32) \<or> n = 133 \<or> n = 160)"

text \<open>The class \<^verbatim>\<open>\w\<close> of a \<^verbatim>\<open>str\<close> pattern: \<^verbatim>\<open>str.isalnum\<close> or the underscore.
  Below 256 these are the ASCII digits and letters, \<open>_\<close>, and the Latin-1 letters
  and numerals (ordinal indicators, superscript digits, micro sign, vulgar fractions,
  and the letters from 0xC0 to 0xFF except the multiplication and division signs).\<close>

definition py_isword :: "char \<Rightarrow> bool" where
  "py_isword c =
     (let n = of_char c :: nat in
      (48 \<le> n \<and> n \<le> 57) \<or> (65 \<le> n \<and> n \<le> 90) \<or> n = 95 \<or> (97 \<le> n \<and> n \<le> 122) \<or>
      n = 170 \<or> n = 178 \<or> n = 179 \<or> n = 181 \<or> n = 185 \<or> n = 186 \<or>
      (188 \<le> n \<and> n \<le> 190) \<or> (192 \<le> n \<and> n \<le> 214) \<or> (216 \<le> n \<and> n \<le> 246) \<or> 248 \<le> n)"

text \<open>Case folding as \<^verbatim>\<open>re.IGNORECASE\<close> applies it to the ASCII letters of a
  pattern: below 256 no character other than an ASCII letter folds to one.\<close>

definition py_lower :: "char \<Rightarrow> char" where
  "py_lower c = (let n = of_char c :: nat in if 65 \<le> n \<and> n \<le> 90 then char_of (n + 32) else c)"

lemma py_isspace_not_word [char_class_simps]: "py_isspace c \<Longrightarrow> \<not> py_isword c"
  by (auto simp: py_isspace_def py_isword_def Let_def)

lemma py_isspace_space [char_class_simps]: "py_isspace (CHR '' '')"
  by (simp add: py_isspace_def)

lemma py_isspace_newline [char_class_simps]: "py_isspace newline"
  by (simp add: py_isspace_def)

section \<open>\<^verbatim>\<open>str.strip\<close>, \<^verbatim>\<open>str.join\<close>, \<^verbatim>\<open>str.split\<close>\<close>

definition py_strip :: "string \<Rightarrow> string" where
  "py_strip s = rev (dropWhile py_isspace (rev (dropWhile py_isspace s)))"

text \<open>\<^verbatim>\<open>sep.join(xs)\<close>.\<close>

fun py_join :: "string \<Rightarrow> string list \<Rightarrow> string" where
  "py_join sep [] = []"
| "py_join sep [x] = x"
| "py_join sep (x # y # xs) = x @ sep @ py_join sep (y # xs)"

text \<open>
  \<^verbatim>\<open>s.split(sep)\<close> for a non-empty separator: the text is scanned from the left;
  where \<open>sep\<close> starts, the piece read so far (kept reversed in \<open>cur\<close>) is closed and
  the scan resumes after the separator, so occurrences do not overlap. The source
  calls it with the literal separator \<^verbatim>\<open>'. '\<close> only; the \<^verbatim>\<open>ValueError\<close> of an
  empty separator cannot arise there, and the guard \<open>sep \<noteq> []\<close> only keeps the
  function total.
\<close>

function py_split_aux :: "string \<Rightarrow> string \<Rightarrow> string \<Rightarrow> string list" where
  "py_split_aux sep cur [] = [rev cur]"
| "py_split_aux sep cur (c # cs) =
     (if sep \<noteq> [] \<and> take (length sep) (c # cs) = sep
      then rev cur # py_split_aux sep [] (drop (length sep) (c # cs))
      else py_split_aux sep (c # cur) cs)"
  by pat_completeness auto
termination
  by (relation "measure (\<lambda>(sep, cur, s). length s)") auto

definition py_split :: "string \<Rightarrow> string \<Rightarrow> string list" where
  "py_split sep s = py_split_aux sep [] s"


text \<open>Splitting on a one-character separator, the shape the line structure of a
  transcript is read with.\<close>

lemma py_split_aux_single_none [text_simps]:
  "c \<notin> set x \<Longrightarrow> py_split_aux [c] cur x = [rev cur @ x]"
  by (induction x arbitrary: cur) auto

lemma py_split_aux_single_sep [text_simps]:
  "c \<notin> set x \<Longrightarrow> py_split_aux [c] cur (x @ c # rest) = (rev cur @ x) # py_split_aux [c] [] rest"
  by (induction x arbitrary: cur) auto

lemma py_split_lines:
  "\<forall>l \<in> set ls. c \<notin> set l \<Longrightarrow>
   py_split [c] (concat (map (\<lambda>l. l @ [c]) ls)) = ls @ [[]]"
  by (induction ls) (simp_all add: py_split_def py_split_aux_single_sep)

lemma py_split_aux_chars:
  "x \<in> set (py_split_aux sep cur s) \<Longrightarrow> set x \<subseteq> set cur \<union> set s"
proof (induction sep cur s rule: py_split_aux.induct)
  case (2 sep cur c cs)
  have "set (drop (length sep) (c # cs)) \<subseteq> set (c # cs)" by (rule set_drop_subset)
  with "2" show ?case by (auto split: if_splits)
qed simp

lemma py_split_chars: "x \<in> set (py_split sep s) \<Longrightarrow> set x \<subseteq> set s"
  using py_split_aux_chars [of x sep "[]" s] by (simp add: py_split_def)

lemma py_strip_chars: "set (py_strip s) \<subseteq> set s"
proof
  fix x assume "x \<in> set (py_strip s)"
  then have "x \<in> set (dropWhile py_isspace (rev (dropWhile py_isspace s)))"
    by (simp add: py_strip_def)
  then have "x \<in> set (dropWhile py_isspace s)" by (auto dest: set_dropWhileD)
  then show "x \<in> set s" by (rule set_dropWhileD)
qed

lemma py_split_join_single:
  "xs \<noteq> [] \<Longrightarrow> \<forall>x \<in> set xs. c \<notin> set x \<Longrightarrow> py_split [c] (py_join [c] xs) = xs"
proof (induction "[c]" xs rule: py_join.induct)
  case (2 x)
  then show ?case by (simp add: py_split_def py_split_aux_single_none)
next
  case (3 x y xs)
  then show ?case by (simp add: py_split_def py_split_aux_single_sep)
qed simp

section \<open>\<^verbatim>\<open>%.2f\<close>\<close>

text \<open>
  CPython prints a float with \<^verbatim>\<open>%.2f\<close> (and \<^verbatim>\<open>{:.2f}\<close>) by rounding its exact
  binary value to two decimals, ties to even, and writing the sign of the value
  (so \<^verbatim>\<open>-0.001\<close> prints as \<^verbatim>\<open>-0.00\<close>).
\<close>

definition round_half_even :: "rat \<Rightarrow> int" where
  "round_half_even r =
     (let f = \<lfloor>r\<rfloor>; d = r - of_int f in
      if 1/2 < d then f + 1 else if d < 1/2 then f else if even f then f else f + 1)"

definition decimal_digits :: string where
  "decimal_digits = ''0123456789''"

definition digit_char :: "nat \<Rightarrow> char" where
  "digit_char d = decimal_digits ! d"

fun nat_digits :: "nat \<Rightarrow> string" where
  "nat_digits n = (if n < 10 then [digit_char n] else nat_digits (n div 10) @ [digit_char (n mod 10)])"

declare nat_digits.simps [simp del]

definition py_fmt2 :: "time \<Rightarrow> string" where
  "py_fmt2 x =
     (let n = nat (round_half_even (\<bar>x\<bar> * 100)) in
      (if x < 0 then ''-'' else []) @ nat_digits (n div 100) @ ''.'' @
      [digit_char (n div 10 mod 10), digit_char (n mod 10)])"

text \<open>\<^verbatim>\<open>str(i)\<close> of an int, as an f-string writes it.\<close>

definition py_str_int :: "int \<Rightarrow> string" where
  "py_str_int i = (if i < 0 then ''-'' else []) @ nat_digits (nat \<bar>i\<bar>)"

lemma digit_char_mem: "d < 10 \<Longrightarrow> digit_char d \<in> set decimal_digits"
  by (simp add: digit_char_def nth_mem decimal_digits_def del: set_simps)

lemma nat_digits_chars: "set (nat_digits n) \<subseteq> set decimal_digits"
proof (induction n rule: nat_digits.induct)
  case (1 n)
  then show ?case
    by (subst nat_digits.simps) (auto intro: digit_char_mem)
qed

lemma py_fmt2_chars [text_simps]: "set (py_fmt2 x) \<subseteq> {CHR ''-'', CHR ''.''} \<union> set decimal_digits"
  using nat_digits_chars digit_char_mem
  by (auto simp: py_fmt2_def Let_def)

section \<open>Reading a formatted time back\<close>

text \<open>A reader for the unsigned output of \<^verbatim>\<open>%.2f\<close>: decimal digits, a point, two
  digits. It is not part of the program; it states what the printed text means.\<close>

definition digit_value :: "char \<Rightarrow> nat option" where
  "digit_value c = (let n = of_char c :: nat in if 48 \<le> n \<and> n \<le> 57 then Some (n - 48) else None)"

fun read_digits :: "nat \<Rightarrow> string \<Rightarrow> nat option" where
  "read_digits acc [] = Some acc"
| "read_digits acc (c # cs) =
     (case digit_value c of None \<Rightarrow> None | Some d \<Rightarrow> read_digits (10 * acc + d) cs)"

definition read_fixed2 :: "string \<Rightarrow> rat option" where
  "read_fixed2 s =
     (let ip = takeWhile (\<lambda>c. c \<noteq> CHR ''.'') s; rest = dropWhile (\<lambda>c. c \<noteq> CHR ''.'') s in
      case rest of
        [dot, a, b] \<Rightarrow>
          (case (read_digits 0 ip, read_digits 0 [a, b]) of
             (Some i, Some f) \<Rightarrow> if ip \<noteq> [] then Some (of_nat i + of_nat f / 100) else None
           | _ \<Rightarrow> None)
      | _ \<Rightarrow> None)"

lemma digit_value_char: "d < 10 \<Longrightarrow> digit_value (digit_char d) = Some d"
proof -
  assume "d < 10"
  then have "d \<in> {0, 1, 2, 3, 4, 5, 6, 7, 8, 9}" by auto
  then show ?thesis
    by (auto simp: digit_value_def digit_char_def decimal_digits_def)
qed

lemma read_digits_snoc:
  "read_digits acc (xs @ [c]) =
     (case read_digits acc xs of None \<Rightarrow> None
      | Some v \<Rightarrow> (case digit_value c of None \<Rightarrow> None | Some d \<Rightarrow> Some (10 * v + d)))"
  by (induction acc xs rule: read_digits.induct) (auto split: option.splits)

lemma read_nat_digits: "read_digits 0 (nat_digits n) = Some n"
proof (induction n rule: nat_digits.induct)
  case (1 n)
  show ?case
  proof (cases "n < 10")
    case True
    then show ?thesis by (simp add: nat_digits.simps [of n] digit_value_char)
  next
    case False
    then have "read_digits 0 (nat_digits n) =
                 read_digits 0 (nat_digits (n div 10) @ [digit_char (n mod 10)])"
      by (simp add: nat_digits.simps [of n])
    also have "\<dots> = Some (10 * (n div 10) + n mod 10)"
      using "1.IH" False by (simp add: read_digits_snoc digit_value_char)
    finally show ?thesis by simp
  qed
qed

lemma nat_digits_no_dot: "CHR ''.'' \<notin> set (nat_digits n)"
  using nat_digits_chars [of n] by (auto simp: decimal_digits_def)

lemma round_half_even_close: "\<bar>of_int (round_half_even r) - r\<bar> \<le> 1/2"
proof -
  have f: "of_int \<lfloor>r\<rfloor> \<le> r" "r < of_int \<lfloor>r\<rfloor> + 1" by linarith+
  then show ?thesis
    unfolding round_half_even_def Let_def by (auto simp: abs_if split: if_split; linarith)
qed

lemma round_half_even_nonneg: "0 \<le> r \<Longrightarrow> 0 \<le> round_half_even r"
  by (auto simp: round_half_even_def Let_def)

lemma of_nat_div_mod_100:
  "of_nat (m div 100) + of_nat (m mod 100) / (100::rat) = of_nat m / 100"
proof -
  have "(of_nat (100 * (m div 100) + m mod 100) :: rat) = of_nat m" by simp
  then have "100 * of_nat (m div 100) + of_nat (m mod 100) = (of_nat m :: rat)"
    by (simp only: of_nat_add of_nat_mult of_nat_numeral)
  then show ?thesis by (simp add: field_simps)
qed

lemma read_fixed2_fmt2:
  assumes "0 \<le> x"
  shows "read_fixed2 (py_fmt2 x) = Some (of_int (round_half_even (x * 100)) / 100)"
proof -
  let ?n = "nat (round_half_even (x * 100))"
  have fmt: "py_fmt2 x = nat_digits (?n div 100) @ CHR ''.'' #
                [digit_char (?n div 10 mod 10), digit_char (?n mod 10)]"
    using assms by (simp add: py_fmt2_def Let_def)
  have P: "\<And>c. c \<in> set (nat_digits (?n div 100)) \<Longrightarrow> c \<noteq> CHR ''.''"
    using nat_digits_no_dot by blast
  have tw: "takeWhile (\<lambda>c. c \<noteq> CHR ''.'') (py_fmt2 x) = nat_digits (?n div 100)"
    unfolding fmt by (simp add: takeWhile_append2 [OF P])
  have dw: "dropWhile (\<lambda>c. c \<noteq> CHR ''.'') (py_fmt2 x) =
              [CHR ''.'', digit_char (?n div 10 mod 10), digit_char (?n mod 10)]"
    unfolding fmt by (simp add: dropWhile_append2 [OF P])
  have ne: "nat_digits (?n div 100) \<noteq> []"
    by (subst nat_digits.simps) simp
  have frac: "read_digits 0 [digit_char (?n div 10 mod 10), digit_char (?n mod 10)] = Some (?n mod 100)"
    by (simp add: digit_value_char mod_mult2_eq [symmetric])
  have "of_nat (?n div 100) + of_nat (?n mod 100) / (100::rat) = of_nat ?n / 100"
    by (rule of_nat_div_mod_100)
  moreover have "of_nat ?n = (of_int (round_half_even (x * 100)) :: rat)"
    using round_half_even_nonneg assms by simp
  ultimately show ?thesis
    using tw dw ne frac read_nat_digits [of "?n div 100"] by (simp add: read_fixed2_def)
qed

lemma py_split_aux_nonempty: "py_split_aux sep cur s \<noteq> []"
  by (induction sep cur s rule: py_split_aux.induct) auto

lemma py_split_aux_join:
  "sep \<noteq> [] \<Longrightarrow> py_join sep (py_split_aux sep cur s) = rev cur @ s"
proof (induction sep cur s rule: py_split_aux.induct)
  case (2 sep cur c cs)
  show ?case
  proof (cases "take (length sep) (c # cs) = sep")
    case True
    have "py_join sep (py_split_aux sep [] (drop (length sep) (c # cs))) = drop (length sep) (c # cs)"
      using "2.IH"(1) "2.prems" True by simp
    moreover obtain p ps where "py_split_aux sep [] (drop (length sep) (c # cs)) = p # ps"
      using py_split_aux_nonempty neq_Nil_conv by metis
    ultimately show ?thesis
      using True "2.prems" by (simp, metis append_take_drop_id)
  next
    case False
    then show ?thesis using "2.IH"(2) "2.prems" by simp
  qed
qed simp

lemma py_join_pieces:
  "i < length xs \<Longrightarrow> (i = 0 \<and> prefix (xs ! 0) (py_join sep xs)) \<or>
                      (0 < i \<and> sublist (sep @ xs ! i) (py_join sep xs))"
proof (induction sep xs arbitrary: i rule: py_join.induct)
  case (3 sep x y xs)
  show ?case
  proof (cases i)
    case 0
    then show ?thesis by simp
  next
    case (Suc j)
    then have "j < length (y # xs)" using "3.prems" by simp
    then have "(j = 0 \<and> prefix ((y # xs) ! 0) (py_join sep (y # xs))) \<or>
               (0 < j \<and> sublist (sep @ (y # xs) ! j) (py_join sep (y # xs)))"
      by (rule "3.IH")
    then have "sublist (sep @ (y # xs) ! j) (sep @ py_join sep (y # xs))"
      by (auto intro: sublist_appendI prefix_imp_sublist sublist_append_leftI dest: sublist_order.order_trans)
    then have "sublist (sep @ (y # xs) ! j) (x @ (sep @ py_join sep (y # xs)))"
      by (rule sublist_order.order_trans[OF _ sublist_append_leftI])
    then have "sublist (sep @ (x # y # xs) ! i) (x @ sep @ py_join sep (y # xs))"
      using Suc by simp
    then show ?thesis using Suc by simp
  qed
qed auto

lemma py_split_piece_context:
  assumes "sep \<noteq> []" "p \<in> set (py_split sep s)"
  shows "prefix p s \<or> sublist (sep @ p) s"
proof -
  obtain i where i: "i < length (py_split sep s)" "p = py_split sep s ! i"
    using assms(2) by (auto simp: in_set_conv_nth)
  have "py_join sep (py_split sep s) = s"
    using assms(1) by (simp add: py_split_def py_split_aux_join)
  then show ?thesis
    using py_join_pieces [OF i(1), of sep] i(2) by auto
qed

lemma fmt2_round_close:
  "\<bar>of_int (round_half_even (x * 100)) / 100 - x\<bar> \<le> (1::rat) / 200"
proof -
  have "\<bar>of_int (round_half_even (x * 100)) / 100 - x\<bar> =
          \<bar>of_int (round_half_even (x * 100)) - x * 100\<bar> / 100"
    by (simp add: field_simps abs_divide [symmetric])
  also have "\<dots> \<le> (1/2) / 100"
    using round_half_even_close [of "x * 100"] by (simp add: divide_right_mono)
  finally show ?thesis by simp
qed

lemma fmt2_no_s: "CHR ''s'' \<notin> set (py_fmt2 x)"
  using py_fmt2_chars [of x] by (auto simp: decimal_digits_def)

end
