(* ===== verification/Alignment.thy ===== *)
theory Alignment
  imports PyStr
begin

text \<open>
  The boundary extender and the alignment matcher of \<^verbatim>\<open>src/main.py\<close>:
  \<^verbatim>\<open>extend_diarization_boundaries\<close> (lines 69-75) and the inner loop of
  \<^verbatim>\<open>transcribe_with_speaker\<close> (lines 91-94) that picks, for one transcription
  segment, the first extended speaker turn overlapping it. The spec-level reading of
  the matcher, an optional attribution (\<open>attribute\<close>), is stated beside it, with the
  lemmas that the loop implements it, that it is the first match in list order, and
  that a wider margin never loses a match.
\<close>

section \<open>Data\<close>

text \<open>A \<^verbatim>\<open>pyannote.core.Segment\<close>, the time span of a speaker turn.\<close>

record segment =
  seg_start :: time
  seg_end :: time

text \<open>
  \<^verbatim>\<open>diarization.itertracks(yield_label=True)\<close> yields triples
  \<^verbatim>\<open>(turn, track, speaker)\<close> in the annotation's order; the model takes the
  diarization as that list. The track name is never read by the program.
\<close>

type_synonym diarization = "(segment \<times> string \<times> string) list"

text \<open>An extended turn is the tuple \<^verbatim>\<open>(start, end, speaker)\<close> appended at line 74.\<close>

type_synonym ext_turn = "time \<times> time \<times> string"

text \<open>The TimeSpan invariant of the spec (section 3): \<open>0 \<le> start \<le> end\<close>.\<close>

definition valid_span :: "time \<Rightarrow> time \<Rightarrow> bool" where
  "valid_span s e \<longleftrightarrow> 0 \<le> s \<and> s \<le> e"

section \<open>Boundary extender\<close>

definition extend_turn :: "time \<Rightarrow> segment \<times> string \<times> string \<Rightarrow> ext_turn" where
  "extend_turn margin tr =
     (case tr of (turn, _, speaker) \<Rightarrow>
        (max 0 (seg_start turn - margin), seg_end turn + margin, speaker))"

definition extend_diarization_boundaries :: "diarization \<Rightarrow> time \<Rightarrow> ext_turn list" where
  "extend_diarization_boundaries diarization margin = map (extend_turn margin) diarization"

section \<open>Alignment matcher\<close>

text \<open>The test of line 92: closed intervals that meet, touching ends included.\<close>

fun overlaps :: "time \<Rightarrow> time \<Rightarrow> ext_turn \<Rightarrow> bool" where
  "overlaps start_time end_time (turn_start, turn_end, _) \<longleftrightarrow>
     turn_start \<le> end_time \<and> start_time \<le> turn_end"

text \<open>The loop of lines 88-94: \<^verbatim>\<open>speaker = 'unknown'\<close>, then the first overlapping
  turn sets the speaker and breaks.\<close>

fun match_speaker :: "time \<Rightarrow> time \<Rightarrow> ext_turn list \<Rightarrow> string" where
  "match_speaker start_time end_time [] = ''unknown''"
| "match_speaker start_time end_time ((turn_start, turn_end, spk) # rest) =
     (if turn_start \<le> end_time \<and> start_time \<le> turn_end then spk
      else match_speaker start_time end_time rest)"

text \<open>The spec's attribution (section 4.3): the speaker of the first extended turn, in
  the order of the list, whose span overlaps the utterance; \<open>None\<close> where the spec
  writes the sentinel "unknown".\<close>

definition attribute :: "time \<Rightarrow> time \<Rightarrow> ext_turn list \<Rightarrow> string option" where
  "attribute s e turns = map_option (\<lambda>(_, _, spk). spk) (find (overlaps s e) turns)"

section \<open>The matcher implements the attribution\<close>

lemma match_speaker_attribute:
  "match_speaker s e turns =
     (case attribute s e turns of None \<Rightarrow> ''unknown'' | Some spk \<Rightarrow> spk)"
  by (induction s e turns rule: match_speaker.induct) (auto simp: attribute_def)

lemma attribute_None_iff:
  "attribute s e turns = None \<longleftrightarrow> (\<forall>t \<in> set turns. \<not> overlaps s e t)"
  unfolding attribute_def by (metis find_None_iff option.map_disc_iff)

lemma attribute_first:
  assumes "i < length turns" and "overlaps s e (turns ! i)"
    and "\<forall>j < i. \<not> overlaps s e (turns ! j)"
  shows "attribute s e turns = Some (snd (snd (turns ! i)))"
proof -
  have "find (overlaps s e) turns = Some (turns ! i)"
    using assms by (auto simp: find_Some_iff)
  then show ?thesis
    by (simp add: attribute_def split: prod.splits)
qed

section \<open>Extension and margins\<close>

lemma extend_turn_simp [simp]:
  "extend_turn m (turn, tr, spk) = (max 0 (seg_start turn - m), seg_end turn + m, spk)"
  by (simp add: extend_turn_def)

lemma overlaps_extend_mono:
  assumes "overlaps s e (extend_turn m t)" and "m \<le> m'"
  shows "overlaps s e (extend_turn m' t)"
  using assms by (cases t) auto

lemma attribute_extend_mono:
  assumes "attribute s e (extend_diarization_boundaries d m) \<noteq> None" and "m \<le> m'"
  shows "attribute s e (extend_diarization_boundaries d m') \<noteq> None"
  using assms
  by (auto simp: attribute_None_iff extend_diarization_boundaries_def
           intro: overlaps_extend_mono)

lemma extend_label_origin:
  "t \<in> set (extend_diarization_boundaries d m) \<Longrightarrow> \<exists>turn tr. (turn, tr, snd (snd t)) \<in> set d"
  by (force simp: extend_diarization_boundaries_def extend_turn_def split: prod.splits)

lemma attribute_Some_label:
  "attribute s e turns = Some spk \<Longrightarrow> \<exists>t \<in> set turns. snd (snd t) = spk"
  by (induction turns) (auto simp: attribute_def split: if_splits)

lemma match_speaker_known_iff:
  assumes "\<forall>t \<in> set turns. snd (snd t) \<noteq> ''unknown''"
  shows "match_speaker s e turns \<noteq> ''unknown'' \<longleftrightarrow> attribute s e turns \<noteq> None"
proof -
  have "attribute s e turns = Some spk \<Longrightarrow> spk \<noteq> ''unknown''" for spk
    using assms by (auto dest: attribute_Some_label)
  then show ?thesis
    by (auto simp: match_speaker_attribute split: option.splits)
qed

lemma match_speaker_filter:
  "match_speaker s e turns = match_speaker s e (filter (overlaps s e) turns)"
  by (induction s e turns rule: match_speaker.induct) auto

section \<open>Properties of the matcher and the extender\<close>

text \<open>C1: the matcher attributes the speaker of the first extended turn, in list order,
  that overlaps the segment's closed span: a first match, not a best match.\<close>

theorem match_speaker_first_match:
  assumes "i < length turns" and "overlaps s e (turns ! i)"
    and "\<forall>j < i. \<not> overlaps s e (turns ! j)"
  shows "match_speaker s e turns = snd (snd (turns ! i))"
  using attribute_first [OF assms] by (simp add: match_speaker_attribute)

theorem match_speaker_first_match_witness:
  "match_speaker 4.8 6 [(0, 5.5, ''A''), (4.5, 10.5, ''B'')] = ''A''"
  using match_speaker_first_match [of 0 "[(0, 5.5, ''A''), (4.5, 10.5, ''B'')]" "4.8" 6]
  by simp

text \<open>C4: for a non-negative margin the extender keeps the turns, their order and their
  labels, and turns every valid span into a valid span that contains it.\<close>

theorem extend_preserves_spans:
  assumes "0 \<le> m" and "\<forall>(turn, _, _) \<in> set d. valid_span (seg_start turn) (seg_end turn)"
  shows "list_all2 (\<lambda>(turn, _, spk) (s', e', spk').
            valid_span s' e' \<and> s' \<le> seg_start turn \<and> seg_end turn \<le> e' \<and> spk' = spk)
          d (extend_diarization_boundaries d m)"
  using assms
  by (induction d) (auto simp: extend_diarization_boundaries_def valid_span_def)

theorem extend_preserves_spans_witness:
  "list_all2 (\<lambda>(turn, _, spk) (s', e', spk').
      valid_span s' e' \<and> s' \<le> seg_start turn \<and> seg_end turn \<le> e' \<and> spk' = spk)
     [(\<lparr>seg_start = 0, seg_end = 5\<rparr>, ''A'', ''A''), (\<lparr>seg_start = 5, seg_end = 10\<rparr>, ''B'', ''B'')]
     (extend_diarization_boundaries
        [(\<lparr>seg_start = 0, seg_end = 5\<rparr>, ''A'', ''A''), (\<lparr>seg_start = 5, seg_end = 10\<rparr>, ''B'', ''B'')] 0.5)"
  by (rule extend_preserves_spans) (simp_all add: valid_span_def)

text \<open>C7: the extender does not reject a negative margin, and with one it malforms
  exactly the short turns: for a margin m < 0 and valid turns, an extended span is valid
  if and only if its turn lasts at least -2m; every shorter turn (a zero-length one
  included) becomes a span whose end lies before its start, on which the alignment then
  runs. The spec (section 7) rejects a negative margin before any run.\<close>

theorem extend_negative_margin_malformed:
  assumes "m < 0" and "\<forall>(turn, _, _) \<in> set d. valid_span (seg_start turn) (seg_end turn)"
  shows "list_all2 (\<lambda>(turn, _, _) (s', e', _).
            valid_span s' e' \<longleftrightarrow> - 2 * m \<le> seg_end turn - seg_start turn)
          d (extend_diarization_boundaries d m)"
  using assms
  by (induction d) (auto simp: extend_diarization_boundaries_def valid_span_def)

theorem extend_negative_margin_malformed_witness:
  "list_all2 (\<lambda>(turn, _, _) (s', e', _).
      valid_span s' e' \<longleftrightarrow> - 2 * (-1) \<le> seg_end turn - seg_start turn)
     [(\<lparr>seg_start = 0, seg_end = 0.5\<rparr>, ''A'', ''S1''), (\<lparr>seg_start = 1, seg_end = 3\<rparr>, ''B'', ''S2'')]
     (extend_diarization_boundaries
        [(\<lparr>seg_start = 0, seg_end = 0.5\<rparr>, ''A'', ''S1''), (\<lparr>seg_start = 1, seg_end = 3\<rparr>, ''B'', ''S2'')] (-1))"
  by (rule extend_negative_margin_malformed) (simp_all add: valid_span_def)

text \<open>C22: the contract for an optimised matcher (spec section 4.3): any candidate list
  that keeps every overlapping turn, in the diarization's order, yields the same
  attribution as the full scan; turns that do not overlap may be dropped or added.\<close>

theorem match_speaker_index_contract:
  assumes "filter (overlaps s e) candidates = filter (overlaps s e) turns"
  shows "match_speaker s e candidates = match_speaker s e turns"
  using assms match_speaker_filter by metis

theorem match_speaker_index_contract_witness:
  "match_speaker 4.8 6 [(0, 5.5, ''A''), (4.5, 10.5, ''B'')] =
   match_speaker 4.8 6 [(0, 5.5, ''A''), (20, 30, ''C''), (4.5, 10.5, ''B'')]"
  by (rule match_speaker_index_contract) simp

end
