(* ===== verification/Transcript.thy ===== *)
theory Transcript
  imports Alignment
begin

text \<open>
  The transcript synthesiser of \<^verbatim>\<open>src/main.py\<close>, in its two modes:
  \<^verbatim>\<open>transcribe_with_speaker\<close> (lines 78-99), which extends the diarization,
  attributes every transcription segment with the matcher of theory \<open>Alignment\<close>
  and appends one labelled line per segment, and \<^verbatim>\<open>transcribe_audio\<close>
  (lines 102-121), which appends one unlabelled line per segment. The speech
  recogniser (\<^verbatim>\<open>WhisperModel.transcribe\<close>) is an external collaborator: its
  segments are the input list. The spec's decomposition (align, then render) is
  stated beside the loop, with the refinement lemma that the loop computes it.
\<close>

section \<open>Data\<close>

text \<open>A \<^verbatim>\<open>faster_whisper\<close> transcription segment: the fields the program reads.\<close>

record wsegment =
  ws_start :: time
  ws_end :: time
  ws_text :: string

section \<open>Transcript with speaker labels\<close>

text \<open>The f-string of line 97.\<close>

definition speaker_line :: "time \<Rightarrow> time \<Rightarrow> string \<Rightarrow> string \<Rightarrow> string" where
  "speaker_line start_time end_time speaker text =
     ''['' @ py_fmt2 start_time @ '' - '' @ py_fmt2 end_time @ ''] Speaker '' @ speaker @
     '': '' @ text @ [newline]"

text \<open>The loop of lines 85-97 over the segments, with \<^verbatim>\<open>transcript\<close> as accumulator.\<close>

fun transcribe_segments :: "ext_turn list \<Rightarrow> string \<Rightarrow> wsegment list \<Rightarrow> string" where
  "transcribe_segments diarization_result transcript [] = transcript"
| "transcribe_segments diarization_result transcript (segment # segments) =
     (let start_time = ws_start segment;
          end_time = ws_end segment;
          speaker = match_speaker start_time end_time diarization_result
      in transcribe_segments diarization_result
           (transcript @ speaker_line start_time end_time speaker (ws_text segment)) segments)"

text \<open>Line 82 calls the extender with its default margin of 0.5 seconds.\<close>

definition transcribe_with_speaker :: "wsegment list \<Rightarrow> diarization \<Rightarrow> string" where
  "transcribe_with_speaker segments diarization =
     transcribe_segments (extend_diarization_boundaries diarization 0.5) [] segments"

section \<open>Transcript without speaker labels\<close>

text \<open>The format of line 119; note the unit suffix \<^verbatim>\<open>s\<close> after each time.\<close>

definition audio_line :: "time \<Rightarrow> time \<Rightarrow> string \<Rightarrow> string" where
  "audio_line start_time end_time text =
     ''['' @ py_fmt2 start_time @ ''s -> '' @ py_fmt2 end_time @ ''s] '' @ text @ [newline]"

fun transcribe_audio_segments :: "string \<Rightarrow> wsegment list \<Rightarrow> string" where
  "transcribe_audio_segments transcript [] = transcript"
| "transcribe_audio_segments transcript (segment # segments) =
     transcribe_audio_segments
       (transcript @ audio_line (ws_start segment) (ws_end segment) (ws_text segment)) segments"

definition transcribe_audio :: "wsegment list \<Rightarrow> string" where
  "transcribe_audio segments = transcribe_audio_segments [] segments"

section \<open>The spec's decomposition: align, then render\<close>

text \<open>An AttributedUtterance of the spec (section 3), \<open>None\<close> for "unknown".\<close>

record attributed =
  au_start :: time
  au_end :: time
  au_text :: string
  au_speaker :: "string option"

definition align :: "ext_turn list \<Rightarrow> wsegment list \<Rightarrow> attributed list" where
  "align turns utterances =
     map (\<lambda>u. \<lparr>au_start = ws_start u, au_end = ws_end u, au_text = ws_text u,
               au_speaker = attribute (ws_start u) (ws_end u) turns\<rparr>) utterances"

text \<open>The line format of the spec (section 4.4), without the line break.\<close>

definition spec_line :: "attributed \<Rightarrow> string" where
  "spec_line a =
     ''['' @ py_fmt2 (au_start a) @ '' - '' @ py_fmt2 (au_end a) @ ''] Speaker '' @
     (case au_speaker a of None \<Rightarrow> ''unknown'' | Some spk \<Rightarrow> spk) @ '': '' @ au_text a"

text \<open>A reader for the times of a line of the transcript without labels,
  \<^verbatim>\<open>[start s -> end s] text\<close>: the two numerals between the bracket, the unit
  suffixes and the arrow. It is not part of the program; it states what the printed
  line means.\<close>

definition read_audio_span :: "string \<Rightarrow> (rat \<times> rat) option" where
  "read_audio_span line =
     (case line of
        [] \<Rightarrow> None
      | c # rest \<Rightarrow>
          (let a = takeWhile (\<lambda>c. c \<noteq> CHR ''s'') rest;
               rest2 = drop (length a) rest
           in if c = CHR ''['' \<and> take 5 rest2 = ''s -> '' then
                (let b = takeWhile (\<lambda>c. c \<noteq> CHR ''s'') (drop 5 rest2) in
                 case (read_fixed2 a, read_fixed2 b) of
                   (Some x, Some y) \<Rightarrow> Some (x, y)
                 | _ \<Rightarrow> None)
              else None))"

section \<open>The loops are concatenations\<close>

lemma transcribe_segments_concat:
  "transcribe_segments dr acc segs =
     acc @ concat (map (\<lambda>u. speaker_line (ws_start u) (ws_end u)
                              (match_speaker (ws_start u) (ws_end u) dr) (ws_text u)) segs)"
  by (induction segs arbitrary: acc) (simp_all add: Let_def)

lemma transcribe_audio_segments_concat:
  "transcribe_audio_segments acc segs =
     acc @ concat (map (\<lambda>u. audio_line (ws_start u) (ws_end u) (ws_text u)) segs)"
  by (induction segs arbitrary: acc) simp_all

lemma speaker_line_spec_line:
  "speaker_line (ws_start u) (ws_end u) (match_speaker (ws_start u) (ws_end u) dr) (ws_text u) =
   spec_line \<lparr>au_start = ws_start u, au_end = ws_end u, au_text = ws_text u,
              au_speaker = attribute (ws_start u) (ws_end u) dr\<rparr> @ [newline]"
  by (simp add: speaker_line_def spec_line_def match_speaker_attribute split: option.split)

text \<open>The spec's coverage measure (section 8): the number of segments whose transcript
  line names a speaker other than "unknown".\<close>

definition known_count :: "diarization \<Rightarrow> time \<Rightarrow> wsegment list \<Rightarrow> nat" where
  "known_count d m segs =
     length (filter (\<lambda>u. match_speaker (ws_start u) (ws_end u)
                            (extend_diarization_boundaries d m) \<noteq> ''unknown'') segs)"

lemma transcribe_audio_nonempty:
  "segments \<noteq> [] \<Longrightarrow> transcribe_audio segments \<noteq> []"
  by (cases segments) (simp_all add: transcribe_audio_def transcribe_audio_segments_concat audio_line_def)

lemma newline_notin_fmt2 [text_simps]: "newline \<notin> set (py_fmt2 x)"
  using py_fmt2_chars [of x] by (auto simp: decimal_digits_def)

lemma spec_line_no_newline:
  assumes "newline \<notin> set (au_text a)"
    and "\<forall>spk. au_speaker a = Some spk \<longrightarrow> newline \<notin> set spk"
  shows "newline \<notin> set (spec_line a)"
  using assms newline_notin_fmt2
  by (auto simp: spec_line_def split: option.splits)

lemma length_filter_mono_pred:
  "(\<And>x. x \<in> set xs \<Longrightarrow> P x \<Longrightarrow> Q x) \<Longrightarrow> length (filter P xs) \<le> length (filter Q xs)"
  by (induction xs) (auto simp: le_SucI)

section \<open>Properties of the transcript synthesiser\<close>

text \<open>C2: refinement. The loop of \<^verbatim>\<open>transcribe_with_speaker\<close> computes the spec's
  pipeline: extend the turns by 0.5 s, attribute every segment by first match, render
  each attributed utterance as one line, concatenate in segment order.\<close>

theorem transcribe_with_speaker_refines:
  "transcribe_with_speaker segs d =
     concat (map (\<lambda>a. spec_line a @ [newline])
                 (align (extend_diarization_boundaries d 0.5) segs))"
  by (simp add: transcribe_with_speaker_def transcribe_segments_concat align_def
                speaker_line_spec_line comp_def)

text \<open>C3: when no segment text and no speaker label contains a line break, the
  transcript is exactly one line per segment, in segment order, each line the spec's
  format with the segment's own times and text, followed by the final empty piece
  after the last line break.\<close>

theorem transcript_lines:
  assumes "\<forall>u \<in> set segs. newline \<notin> set (ws_text u)"
    and "\<forall>(_, _, spk) \<in> set d. newline \<notin> set spk"
  shows "py_split [newline] (transcribe_with_speaker segs d) =
           map spec_line (align (extend_diarization_boundaries d 0.5) segs) @ [[]]"
proof -
  let ?turns = "extend_diarization_boundaries d 0.5"
  have labels: "\<forall>t \<in> set ?turns. newline \<notin> set (snd (snd t))"
    using assms(2) by (fastforce dest: extend_label_origin)
  have spk: "attribute s e ?turns = Some spk \<Longrightarrow> newline \<notin> set spk" for s e spk
    using labels by (auto dest: attribute_Some_label)
  have "newline \<notin> set (spec_line a)" if "a \<in> set (align ?turns segs)" for a
  proof -
    from that obtain u where "u \<in> set segs"
      and a: "a = \<lparr>au_start = ws_start u, au_end = ws_end u, au_text = ws_text u,
                    au_speaker = attribute (ws_start u) (ws_end u) ?turns\<rparr>"
      by (auto simp: align_def)
    then show ?thesis
      using assms(1) spk by (intro spec_line_no_newline) auto
  qed
  then have "py_split [newline] (concat (map (\<lambda>l. l @ [newline])
               (map spec_line (align ?turns segs)))) = map spec_line (align ?turns segs) @ [[]]"
    by (intro py_split_lines) auto
  moreover have "transcribe_with_speaker segs d =
      concat (map (\<lambda>l. l @ [newline]) (map spec_line (align ?turns segs)))"
    by (simp add: transcribe_with_speaker_def transcribe_segments_concat align_def
                  speaker_line_spec_line comp_def)
  ultimately show ?thesis by simp
qed

theorem transcript_lines_witness:
  "py_split [newline] (transcribe_with_speaker [\<lparr>ws_start = 0, ws_end = 1, ws_text = ''hi''\<rparr>] []) =
     [''[0.00 - 1.00] Speaker unknown: hi'', []]"
proof -
  have "py_split [newline] (transcribe_with_speaker [\<lparr>ws_start = 0, ws_end = 1, ws_text = ''hi''\<rparr>] []) =
        map spec_line (align (extend_diarization_boundaries [] 0.5)
                             [\<lparr>ws_start = 0, ws_end = 1, ws_text = ''hi''\<rparr>]) @ [[]]"
    by (rule transcript_lines) simp_all
  then show ?thesis
    by (simp add: align_def attribute_def extend_diarization_boundaries_def spec_line_def
                  py_fmt2_def round_half_even_def nat_digits.simps digit_char_def decimal_digits_def)
qed

text \<open>C5: widening the margin never lowers the number of segments attributed to a named
  speaker, provided no diarization label is the string "unknown" itself.\<close>

theorem known_count_mono:
  assumes "\<forall>(_, _, spk) \<in> set d. spk \<noteq> ''unknown''" and "m \<le> m'"
  shows "known_count d m segs \<le> known_count d m' segs"
proof -
  have labels: "\<forall>t \<in> set (extend_diarization_boundaries d k). snd (snd t) \<noteq> ''unknown''" for k
    using assms(1) by (fastforce dest: extend_label_origin)
  show ?thesis
    unfolding known_count_def
    using assms(2)
    by (intro length_filter_mono_pred)
       (simp add: match_speaker_known_iff [OF labels] attribute_extend_mono)
qed

theorem known_count_mono_witness:
  "known_count [(\<lparr>seg_start = 0, seg_end = 1\<rparr>, ''A'', ''A'')] 0 [\<lparr>ws_start = 1.2, ws_end = 2, ws_text = ''x''\<rparr>]
   \<le> known_count [(\<lparr>seg_start = 0, seg_end = 1\<rparr>, ''A'', ''A'')] 0.5 [\<lparr>ws_start = 1.2, ws_end = 2, ws_text = ''x''\<rparr>]"
  by (rule known_count_mono) simp_all

text \<open>C6: when no extended turn overlaps any segment, every line is attributed to
  "unknown".\<close>

theorem no_overlap_all_unknown:
  assumes "\<forall>u \<in> set segs. \<forall>t \<in> set (extend_diarization_boundaries d 0.5).
             \<not> overlaps (ws_start u) (ws_end u) t"
  shows "transcribe_with_speaker segs d =
           concat (map (\<lambda>u. speaker_line (ws_start u) (ws_end u) ''unknown'' (ws_text u)) segs)"
proof -
  have "\<forall>u \<in> set segs. attribute (ws_start u) (ws_end u) (extend_diarization_boundaries d 0.5)
          = None"
    using assms by (simp add: attribute_None_iff)
  then have "\<forall>u \<in> set segs. match_speaker (ws_start u) (ws_end u) (extend_diarization_boundaries d 0.5)
          = ''unknown''"
    by (simp add: match_speaker_attribute)
  then show ?thesis
    by (simp add: transcribe_with_speaker_def transcribe_segments_concat cong: map_cong)
qed

theorem no_overlap_all_unknown_witness:
  "transcribe_with_speaker [\<lparr>ws_start = 5, ws_end = 6, ws_text = ''x''\<rparr>]
     [(\<lparr>seg_start = 0, seg_end = 1\<rparr>, ''A'', ''A'')] =
   speaker_line 5 6 ''unknown'' ''x''"
proof -
  have "transcribe_with_speaker [\<lparr>ws_start = 5, ws_end = 6, ws_text = ''x''\<rparr>]
          [(\<lparr>seg_start = 0, seg_end = 1\<rparr>, ''A'', ''A'')] =
        concat (map (\<lambda>u. speaker_line (ws_start u) (ws_end u) ''unknown'' (ws_text u))
                    [\<lparr>ws_start = 5, ws_end = 6, ws_text = ''x''\<rparr>])"
    by (rule no_overlap_all_unknown) (simp add: extend_diarization_boundaries_def)
  then show ?thesis by simp
qed

text \<open>Without that proviso the coverage can fall: a turn labelled "unknown" that
  only overlaps after widening takes the segment away from a named speaker.\<close>

lemma known_count_unknown_label_drop:
  "known_count [(\<lparr>seg_start = 10, seg_end = 11\<rparr>, ''T'', ''unknown''), (\<lparr>seg_start = 0, seg_end = 1\<rparr>, ''T'', ''A'')]
     0.5 [\<lparr>ws_start = 0.5, ws_end = 9.8, ws_text = ''x''\<rparr>] = 0 \<and>
   known_count [(\<lparr>seg_start = 10, seg_end = 11\<rparr>, ''T'', ''unknown''), (\<lparr>seg_start = 0, seg_end = 1\<rparr>, ''T'', ''A'')]
     0 [\<lparr>ws_start = 0.5, ws_end = 9.8, ws_text = ''x''\<rparr>] = 1"
  by (simp add: known_count_def extend_diarization_boundaries_def)

lemma transcribe_audio_split:
  assumes "\<forall>u \<in> set segs. newline \<notin> set (ws_text u)"
  shows "py_split [newline] (transcribe_audio segs) =
           map (\<lambda>u. ''['' @ py_fmt2 (ws_start u) @ ''s -> '' @ py_fmt2 (ws_end u) @ ''s] '' @
                     ws_text u) segs @ [[]]"
proof -
  let ?ls = "map (\<lambda>u. ''['' @ py_fmt2 (ws_start u) @ ''s -> '' @ py_fmt2 (ws_end u) @ ''s] '' @
                       ws_text u) segs"
  have "transcribe_audio segs = concat (map (\<lambda>l. l @ [newline]) ?ls)"
    by (simp add: transcribe_audio_def transcribe_audio_segments_concat audio_line_def comp_def)
  moreover have "\<forall>l \<in> set ?ls. newline \<notin> set l"
    using assms newline_notin_fmt2 by auto
  then have "py_split [newline] (concat (map (\<lambda>l. l @ [newline]) ?ls)) = ?ls @ [[]]"
    by (rule py_split_lines)
  ultimately show ?thesis by simp
qed

lemma read_audio_span_line:
  assumes "0 \<le> x" "0 \<le> y"
  shows "read_audio_span (''['' @ py_fmt2 x @ ''s -> '' @ py_fmt2 y @ ''s] '' @ t) =
           Some (of_int (round_half_even (x * 100)) / 100, of_int (round_half_even (y * 100)) / 100)"
proof -
  have nx: "\<And>c. c \<in> set (py_fmt2 x) \<Longrightarrow> c \<noteq> CHR ''s''" and ny: "\<And>c. c \<in> set (py_fmt2 y) \<Longrightarrow> c \<noteq> CHR ''s''"
    using fmt2_no_s by blast+
  have a: "takeWhile (\<lambda>c. c \<noteq> CHR ''s'') (py_fmt2 x @ ''s -> '' @ py_fmt2 y @ ''s] '' @ t) = py_fmt2 x"
    by (simp add: takeWhile_append2 [OF nx])
  have b: "takeWhile (\<lambda>c. c \<noteq> CHR ''s'') (py_fmt2 y @ ''s] '' @ t) = py_fmt2 y"
    by (simp add: takeWhile_append2 [OF ny])
  show ?thesis
    using a b read_fixed2_fmt2 [OF assms(1)] read_fixed2_fmt2 [OF assms(2)]
    by (simp add: read_audio_span_def Let_def)
qed

text \<open>C8: the transcript without speaker labels, the one the application shows, has one
  line per segment, in segment order: \<^verbatim>\<open>[start s -> end s] text\<close> with the times
  printed by \<^verbatim>\<open>%.2f\<close> and the unit suffix \<^verbatim>\<open>s\<close> (the spec, section 4.4, writes
  no suffix), followed by the final empty piece after the last line break.\<close>

theorem transcribe_audio_lines:
  assumes "\<forall>u \<in> set segs. newline \<notin> set (ws_text u)"
  shows "py_split [newline] (transcribe_audio segs) =
           map (\<lambda>u. ''['' @ py_fmt2 (ws_start u) @ ''s -> '' @ py_fmt2 (ws_end u) @ ''s] '' @
                     ws_text u) segs @ [[]]"
  using assms by (rule transcribe_audio_split)

theorem transcribe_audio_lines_witness:
  "py_split [newline] (transcribe_audio [\<lparr>ws_start = 0, ws_end = 1, ws_text = ''hi''\<rparr>]) =
     [''[0.00s -> 1.00s] hi'', []]"
proof -
  have "py_split [newline] (transcribe_audio [\<lparr>ws_start = 0, ws_end = 1, ws_text = ''hi''\<rparr>]) =
          map (\<lambda>u. ''['' @ py_fmt2 (ws_start u) @ ''s -> '' @ py_fmt2 (ws_end u) @ ''s] '' @
                    ws_text u) [\<lparr>ws_start = 0, ws_end = 1, ws_text = ''hi''\<rparr>] @ [[]]"
    by (rule transcribe_audio_lines) simp
  then show ?thesis
    by (simp add: py_fmt2_def round_half_even_def nat_digits.simps digit_char_def decimal_digits_def)
qed

text \<open>C21: the times of the shown transcript read back: for segments with non-negative
  times and texts without line breaks, the i-th line of the transcript carries, in its
  bracket, two numerals within 0.005 of the i-th segment's start and end (the rounding
  of \<^verbatim>\<open>%.2f\<close>), in that order.\<close>

theorem transcript_times_read_back:
  assumes "\<forall>u \<in> set segs. newline \<notin> set (ws_text u) \<and> 0 \<le> ws_start u \<and> 0 \<le> ws_end u"
    and "i < length segs"
  shows "\<exists>x y. read_audio_span (py_split [newline] (transcribe_audio segs) ! i) = Some (x, y) \<and>
               \<bar>x - ws_start (segs ! i)\<bar> \<le> 1/200 \<and> \<bar>y - ws_end (segs ! i)\<bar> \<le> 1/200"
proof -
  let ?u = "segs ! i"
  have u: "newline \<notin> set (ws_text ?u)" "0 \<le> ws_start ?u" "0 \<le> ws_end ?u"
    using assms by auto
  have "py_split [newline] (transcribe_audio segs) ! i =
          ''['' @ py_fmt2 (ws_start ?u) @ ''s -> '' @ py_fmt2 (ws_end ?u) @ ''s] '' @ ws_text ?u"
    using transcribe_audio_split [of segs] assms by (simp add: nth_append)
  moreover have "read_audio_span (''['' @ py_fmt2 (ws_start ?u) @ ''s -> '' @ py_fmt2 (ws_end ?u) @
                                  ''s] '' @ ws_text ?u) =
      Some (of_int (round_half_even (ws_start ?u * 100)) / 100,
            of_int (round_half_even (ws_end ?u * 100)) / 100)"
    using u(2,3) by (rule read_audio_span_line)
  ultimately have "read_audio_span (py_split [newline] (transcribe_audio segs) ! i) =
      Some (of_int (round_half_even (ws_start ?u * 100)) / 100,
            of_int (round_half_even (ws_end ?u * 100)) / 100)"
    by simp
  then show ?thesis
    using fmt2_round_close [of "ws_start ?u"] fmt2_round_close [of "ws_end ?u"] by blast
qed

theorem transcript_times_read_back_witness:
  "\<exists>x y. read_audio_span (py_split [newline] (transcribe_audio
            [\<lparr>ws_start = 4.8, ws_end = 6.004, ws_text = ''hello''\<rparr>]) ! 0) = Some (x, y) \<and>
         \<bar>x - ws_start ([\<lparr>ws_start = 4.8, ws_end = 6.004, ws_text = ''hello''\<rparr>] ! 0)\<bar> \<le> 1/200 \<and>
         \<bar>y - ws_end ([\<lparr>ws_start = 4.8, ws_end = 6.004, ws_text = ''hello''\<rparr>] ! 0)\<bar> \<le> 1/200"
  by (rule transcript_times_read_back) simp_all

end
