(* ===== verification/Media.thy ===== *)
theory Media
  imports Transcript "HOL-Library.Word"
begin

text \<open>
  The input side of \<^verbatim>\<open>src/main.py\<close>: the files the application writes and reads, and
  the functions that produce the audio the recogniser transcribes. The file system is an
  explicit store from paths to contents, and the Streamlit page the list of items shown
  so far; both are fields of \<open>app_state\<close>, passed and returned by every operation. The
  microphone, the video demuxer, the normaliser of pydub, the Whisper models and the
  pyannote pipeline are collaborators, the fields of \<open>media\<close>. All but the microphone may
  fail with an exception; the microphone always delivers its reads (a failing
  \<^verbatim>\<open>p.open\<close> or \<^verbatim>\<open>stream.read\<close> is not modelled). A function of
  the source that raises after an effect returns the changed state with \<open>Inl\<close> of the
  exception, so what was written or shown before the raise is kept.
\<close>

section \<open>Files and the page\<close>

type_synonym byte = "8 word"
type_synonym bytes = "byte list"

text \<open>A file written by the \<^verbatim>\<open>wave\<close> module: its header fields and its frame data.\<close>

record wave_file =
  nchannels :: nat
  sampwidth :: nat
  framerate :: nat
  wframes :: bytes

datatype file_content = Blob bytes | Wave wave_file

type_synonym store = "string \<rightharpoonup> file_content"

text \<open>What the page shows: \<^verbatim>\<open>st.title\<close>, \<^verbatim>\<open>st.write\<close> and \<^verbatim>\<open>st.text\<close> calls, in order.\<close>

datatype ui_out = Title string | Write string | Text string

record app_state =
  fs :: store
  shown :: "ui_out list"

abbreviation write_file :: "string \<Rightarrow> file_content \<Rightarrow> app_state \<Rightarrow> app_state" where
  "write_file path c st \<equiv> st\<lparr>fs := (fs st)(path \<mapsto> c)\<rparr>"

abbreviation show_ui :: "ui_out \<Rightarrow> app_state \<Rightarrow> app_state" where
  "show_ui u st \<equiv> st\<lparr>shown := shown st @ [u]\<rparr>"

text \<open>
  The collaborators. \<open>mic i\<close> is what the \<open>i\<close>-th \<^verbatim>\<open>stream.read(chunk)\<close> of a recording
  returns; \<open>demux\<close> is \<^verbatim>\<open>VideoFileClip(...).audio.write_audiofile\<close>, \<open>normalize_audio\<close>
  is \<^verbatim>\<open>AudioSegment.from_file\<close>, \<^verbatim>\<open>normalize\<close> and the export as WAV,
  \<open>whisper\<close> is \<^verbatim>\<open>WhisperModel("large-v3").transcribe(path, beam_size=5)\<close>,
  \<open>whisper_vad\<close> is \<^verbatim>\<open>WhisperModel("medium").transcribe(path, vad_filter=True)\<close>, and
  \<open>diarizer\<close> is the pretrained pyannote pipeline applied to a path, with its
  \<^verbatim>\<open>itertracks(yield_label=True)\<close> listing; all read the contents of the file they open.
\<close>

record media =
  mic :: "nat \<Rightarrow> bytes"
  demux :: "file_content \<Rightarrow> py_error + wave_file"
  normalize_audio :: "file_content \<Rightarrow> py_error + wave_file"
  whisper :: "file_content \<Rightarrow> py_error + wsegment list"
  whisper_vad :: "file_content \<Rightarrow> py_error + wsegment list"
  diarizer :: "file_content \<Rightarrow> py_error + diarization"

text \<open>Opening a path for reading: a missing file is \<^verbatim>\<open>FileNotFoundError\<close>.\<close>

definition read_file :: "string \<Rightarrow> app_state \<Rightarrow> py_error + file_content" where
  "read_file path st = (case fs st path of None \<Rightarrow> Inl (FileNotFoundError path) | Some c \<Rightarrow> Inr c)"

text \<open>
  \<^verbatim>\<open>tempfile.NamedTemporaryFile(delete=False, suffix=suffix)\<close>: the library creates an
  empty file named by a fresh stem (directory, \<^verbatim>\<open>tmp\<close> and random letters, the
  argument \<open>stem\<close>) followed by the suffix \<open>file_suffix\<close>; with \<^verbatim>\<open>delete=False\<close> it is never removed.
\<close>

definition named_temporary_file :: "string \<Rightarrow> string \<Rightarrow> app_state \<Rightarrow> string \<times> app_state" where
  "named_temporary_file stem file_suffix st =
     (stem @ file_suffix, write_file (stem @ file_suffix) (Blob []) st)"

section \<open>Recording: \<^verbatim>\<open>record_audio\<close>\<close>

text \<open>The sample formats of PyAudio and \<^verbatim>\<open>p.get_sample_size\<close> in bytes.\<close>

datatype pa_format = paFloat32 | paInt32 | paInt24 | paInt16 | paInt8 | paUInt8

fun pa_sample_size :: "pa_format \<Rightarrow> nat" where
  "pa_sample_size paFloat32 = 4"
| "pa_sample_size paInt32 = 4"
| "pa_sample_size paInt24 = 3"
| "pa_sample_size paInt16 = 2"
| "pa_sample_size paInt8 = 1"
| "pa_sample_size paUInt8 = 1"

text \<open>\<^verbatim>\<open>int(x)\<close> of a float truncates toward zero.\<close>

definition py_int :: "rat \<Rightarrow> int" where
  "py_int x = (if 0 \<le> x then \<lfloor>x\<rfloor> else \<lceil>x\<rceil>)"

text \<open>
  The number of iterations of \<^verbatim>\<open>range(0, int(rate / chunk * record_seconds))\<close>; a
  non-positive bound is the empty range. The float arithmetic is exact for the
  application's arguments (\<open>16000 / 1024 = 15.625\<close> times an integer below \<open>2 ^ 40\<close>).
\<close>

definition read_count :: "int \<Rightarrow> nat \<Rightarrow> nat \<Rightarrow> nat" where
  "read_count record_seconds chunk rate =
     nat (py_int (of_nat rate / of_nat chunk * of_int record_seconds))"

text \<open>
  Lines 19-43. The message is shown before the loop; a zero \<open>chunk\<close> raises
  \<^verbatim>\<open>ZeroDivisionError\<close> in the loop bound, after it. The reads are made in order and
  their concatenation is the frame data of the WAV file written at \<open>filename\<close>.
\<close>

definition record_audio ::
  "media \<Rightarrow> string \<Rightarrow> int \<Rightarrow> nat \<Rightarrow> pa_format \<Rightarrow> nat \<Rightarrow> nat \<Rightarrow> app_state \<Rightarrow>
   app_state \<times> (py_error + unit)" where
  "record_audio md filename record_seconds chunk format channels rate st =
     (let st1 = show_ui (Write ''Recording audio...'') st in
      if chunk = 0 then (st1, Inl (ZeroDivisionError ''division by zero''))
      else
        let frames = map (mic md) [0..<read_count record_seconds chunk rate];
            wf = \<lparr>nchannels = channels, sampwidth = pa_sample_size format, framerate = rate,
                  wframes = concat frames\<rparr>
        in (write_file filename (Wave wf) st1, Inr ()))"

section \<open>Normalisation and video: \<^verbatim>\<open>preprocess_audio\<close>, \<^verbatim>\<open>extract_audio_from_video\<close>\<close>

text \<open>\<^verbatim>\<open>os.path.basename\<close> (POSIX): what follows the last slash.\<close>

definition py_basename :: "string \<Rightarrow> string" where
  "py_basename p = rev (takeWhile (\<lambda>c. c \<noteq> CHR ''/'') (rev p))"

text \<open>
  Lines 46-51: the normalised audio is exported to \<^verbatim>\<open>"normalized_" + basename\<close>, a
  path relative to the working directory, whatever directory the input is in.
\<close>

definition preprocess_audio :: "media \<Rightarrow> string \<Rightarrow> app_state \<Rightarrow> app_state \<times> (py_error + string)" where
  "preprocess_audio md file_path st =
     (case read_file file_path st of
        Inl e \<Rightarrow> (st, Inl e)
      | Inr audio \<Rightarrow>
          (case normalize_audio md audio of
             Inl e \<Rightarrow> (st, Inl e)
           | Inr normalized_audio \<Rightarrow>
               let processed_path = ''normalized_'' @ py_basename file_path
               in (write_file processed_path (Wave normalized_audio) st, Inr processed_path)))"

text \<open>Lines 54-58: the audio track is always written to the same relative path.\<close>

definition extract_audio_from_video ::
  "media \<Rightarrow> string \<Rightarrow> app_state \<Rightarrow> app_state \<times> (py_error + string)" where
  "extract_audio_from_video md video_file st =
     (case read_file video_file st of
        Inl e \<Rightarrow> (st, Inl e)
      | Inr video \<Rightarrow>
          (case demux md video of
             Inl e \<Rightarrow> (st, Inl e)
           | Inr audio \<Rightarrow>
               (write_file ''extracted_audio.wav'' (Wave audio) st, Inr ''extracted_audio.wav'')))"

section \<open>Transcribing a file\<close>

text \<open>
  \<^verbatim>\<open>transcribe_audio(file_path)\<close> (lines 102-121): the model opens the file and
  returns its segments, which the loop of theory \<open>Transcript\<close> renders. The
  \<^verbatim>\<open>print\<close> of the detected language goes to the console and is not modelled.
\<close>

definition transcribe_audio_file :: "media \<Rightarrow> string \<Rightarrow> app_state \<Rightarrow> py_error + string" where
  "transcribe_audio_file md file_path st =
     (case read_file file_path st of
        Inl e \<Rightarrow> Inl e
      | Inr audio \<Rightarrow>
          (case whisper md audio of
             Inl e \<Rightarrow> Inl e
           | Inr segments \<Rightarrow> Inr (transcribe_audio segments)))"

section \<open>The speaker-attributed path\<close>

text \<open>
  \<^verbatim>\<open>diarize_audio\<close> (lines 61-66) runs the pyannote pipeline on the file, and
  \<^verbatim>\<open>transcribe_with_speaker(file_path, diarization)\<close> (lines 78-99) transcribes the
  file with voice-activity filtering and attributes the segments
  (\<open>transcribe_with_speaker\<close> of theory \<open>Transcript\<close>). \<^verbatim>\<open>main()\<close> calls
  neither.
\<close>

definition diarize_audio :: "media \<Rightarrow> string \<Rightarrow> app_state \<Rightarrow> py_error + diarization" where
  "diarize_audio md file_path st =
     (case read_file file_path st of
        Inl e \<Rightarrow> Inl e
      | Inr audio \<Rightarrow> diarizer md audio)"

definition transcribe_with_speaker_file ::
  "media \<Rightarrow> string \<Rightarrow> diarization \<Rightarrow> app_state \<Rightarrow> py_error + string" where
  "transcribe_with_speaker_file md file_path diarization st =
     (case read_file file_path st of
        Inl e \<Rightarrow> Inl e
      | Inr audio \<Rightarrow>
          (case whisper_vad md audio of
             Inl e \<Rightarrow> Inl e
           | Inr segments \<Rightarrow> Inr (transcribe_with_speaker segments diarization)))"

section \<open>Well-formed audio files\<close>

text \<open>
  The duration of a WAV file in seconds, the well-formedness of its header and data (a
  whole number of frames), of a store (every WAV file in it), and the contract of the
  collaborators the application relies on: the microphone delivers each chunk of 1024
  16-bit mono frames in full, the demuxer and the normaliser write well-formed files.
\<close>

definition wave_duration :: "wave_file \<Rightarrow> rat" where
  "wave_duration w = of_nat (length (wframes w)) / of_nat (sampwidth w * nchannels w * framerate w)"

definition wave_wf :: "wave_file \<Rightarrow> bool" where
  "wave_wf w \<longleftrightarrow> 0 < nchannels w \<and> 0 < sampwidth w \<and> 0 < framerate w \<and>
                 sampwidth w * nchannels w dvd length (wframes w)"

definition store_wf :: "store \<Rightarrow> bool" where
  "store_wf s \<longleftrightarrow> (\<forall>p w. s p = Some (Wave w) \<longrightarrow> wave_wf w)"

definition media_wf :: "media \<Rightarrow> bool" where
  "media_wf md \<longleftrightarrow> (\<forall>i. length (mic md i) = 2048) \<and>
                   (\<forall>c w. demux md c = Inr w \<longrightarrow> wave_wf w) \<and>
                   (\<forall>c w. normalize_audio md c = Inr w \<longrightarrow> wave_wf w)"



section \<open>Properties of the input side\<close>

lemma read_count_app:
  "0 \<le> record_seconds \<Longrightarrow>
   read_count record_seconds 1024 16000 = nat \<lfloor>125 * of_int record_seconds / (8::rat)\<rfloor>"
  by (simp add: read_count_def py_int_def)

lemma read_count_30: "read_count 30 1024 16000 = 468"
proof -
  have "\<lfloor>125 * 30 / (8::rat)\<rfloor> = 468" by (simp add: floor_eq_iff)
  then show ?thesis by (simp add: read_count_app)
qed

lemma record_audio_wave:
  "chunk \<noteq> 0 \<Longrightarrow>
   fs (fst (record_audio md filename record_seconds chunk format channels rate st)) filename =
     Some (Wave \<lparr>nchannels = channels, sampwidth = pa_sample_size format, framerate = rate,
                 wframes = concat (map (mic md) [0..<read_count record_seconds chunk rate])\<rparr>)"
  by (simp add: record_audio_def Let_def)

lemma length_concat_const:
  "\<forall>i. length (f i) = k \<Longrightarrow> length (concat (map f xs)) = length xs * k"
  by (induction xs) auto

lemma floor_duration_bounds:
  fixes q :: rat
  assumes "0 \<le> q"
  shows "of_nat (nat \<lfloor>q\<rfloor>) \<le> q \<and> q < of_nat (nat \<lfloor>q\<rfloor>) + 1"
proof -
  have "0 \<le> \<lfloor>q\<rfloor>" using assms by simp
  then have "of_nat (nat \<lfloor>q\<rfloor>) = (of_int \<lfloor>q\<rfloor> :: rat)" by simp
  then show ?thesis by (simp add: of_int_floor_le) linarith
qed

text \<open>C26: a recording made with the application's parameters (1024-frame chunks of
  16-bit mono at 16000 Hz) from a microphone that delivers each chunk in full lasts at
  most the requested number of seconds and less than one chunk (64 ms) short of it: the
  loop reads \<^verbatim>\<open>int(15.625 * record_seconds)\<close> chunks, rounded down.\<close>

theorem record_audio_duration:
  assumes "\<forall>i. length (mic md i) = 2048" and "0 \<le> record_seconds"
  shows "\<exists>w. fs (fst (record_audio md filename record_seconds 1024 paInt16 1 16000 st)) filename =
               Some (Wave w) \<and>
             wave_duration w \<le> of_int record_seconds \<and>
             of_int record_seconds - 8 / 125 < wave_duration w"
proof -
  let ?q = "125 * of_int record_seconds / (8::rat)"
  let ?n = "read_count record_seconds 1024 16000"
  let ?w = "\<lparr>nchannels = 1, sampwidth = pa_sample_size paInt16, framerate = 16000,
             wframes = concat (map (mic md) [0..<?n])\<rparr>"
  have n: "?n = nat \<lfloor>?q\<rfloor>" using assms(2) by (rule read_count_app)
  have "wave_duration ?w = of_nat ?n * 8 / 125"
    using length_concat_const [OF assms(1), of "[0..<?n]"] by (simp add: wave_duration_def)
  moreover have "of_nat (nat \<lfloor>?q\<rfloor>) \<le> ?q \<and> ?q < of_nat (nat \<lfloor>?q\<rfloor>) + 1"
    using assms(2) by (intro floor_duration_bounds) simp
  ultimately obtain d N where "d = N * 8 / 125" "N \<le> ?q" "?q < N + 1"
      "d = wave_duration ?w"
    unfolding n by blast
  then have "wave_duration ?w \<le> of_int record_seconds \<and>
             of_int record_seconds - 8 / 125 < wave_duration ?w"
    by (simp add: field_simps)
  moreover have "fs (fst (record_audio md filename record_seconds 1024 paInt16 1 16000 st)) filename =
                   Some (Wave ?w)"
    by (rule record_audio_wave) simp
  ultimately show ?thesis by blast
qed

lemma store_wf_blob [store_wf_intros]: "store_wf s \<Longrightarrow> store_wf (s(p \<mapsto> Blob b))"
  by (simp add: store_wf_def)

lemma store_wf_wave [store_wf_intros]: "store_wf s \<Longrightarrow> wave_wf w \<Longrightarrow> store_wf (s(p \<mapsto> Wave w))"
  by (simp add: store_wf_def)

lemma named_temporary_file_wf [store_wf_intros]:
  "named_temporary_file stem sfx st = (p, st') \<Longrightarrow> store_wf (fs st) \<Longrightarrow> store_wf (fs st')"
  by (auto simp: named_temporary_file_def store_wf_blob)

lemma record_audio_wf [store_wf_intros]:
  assumes "record_audio md filename record_seconds 1024 paInt16 1 16000 st = (st', r)"
    and "media_wf md" "store_wf (fs st)"
  shows "store_wf (fs st')"
proof -
  have "length (concat (map (mic md) xs)) = length xs * 2048" for xs
    using assms(2) by (intro length_concat_const) (simp add: media_wf_def)
  then show ?thesis
    using assms(1,3) by (auto simp: record_audio_def Let_def store_wf_wave wave_wf_def)
qed

lemma preprocess_audio_wf [store_wf_intros]:
  "preprocess_audio md p st = (st', r) \<Longrightarrow> media_wf md \<Longrightarrow> store_wf (fs st) \<Longrightarrow> store_wf (fs st')"
  by (auto simp: preprocess_audio_def media_wf_def Let_def store_wf_wave split: sum.splits)

lemma extract_audio_from_video_wf [store_wf_intros]:
  "extract_audio_from_video md p st = (st', r) \<Longrightarrow> media_wf md \<Longrightarrow> store_wf (fs st) \<Longrightarrow>
   store_wf (fs st')"
  by (auto simp: extract_audio_from_video_def media_wf_def store_wf_wave split: sum.splits)

lemma named_temporary_file_dom [store_dom_intros]:
  "named_temporary_file stem sfx st = (p, st') \<Longrightarrow> dom (fs st) \<subseteq> dom (fs st')"
  by (auto simp: named_temporary_file_def)

lemma record_audio_dom [store_dom_intros]:
  "record_audio md filename s chunk format channels rate st = (st', r) \<Longrightarrow> dom (fs st) \<subseteq> dom (fs st')"
  by (auto simp: record_audio_def Let_def split: if_splits)

lemma preprocess_audio_dom [store_dom_intros]:
  "preprocess_audio md p st = (st', r) \<Longrightarrow> dom (fs st) \<subseteq> dom (fs st')"
  by (auto simp: preprocess_audio_def Let_def split: sum.splits)

lemma extract_audio_from_video_dom [store_dom_intros]:
  "extract_audio_from_video md p st = (st', r) \<Longrightarrow> dom (fs st) \<subseteq> dom (fs st')"
  by (auto simp: extract_audio_from_video_def split: sum.splits)

theorem record_audio_duration_witness:
  "(\<exists>w. fs (fst (record_audio
          \<lparr>mic = \<lambda>_. replicate 2048 0, demux = \<lambda>_. Inl (ExternalError ''no video''),
           normalize_audio = \<lambda>_. Inl (ExternalError ''no audio''),
           whisper = \<lambda>_. Inl (ExternalError ''no model''),
           whisper_vad = \<lambda>_. Inl (ExternalError ''no model''),
           diarizer = \<lambda>_. Inl (ExternalError ''no model'')\<rparr>
          ''/tmp/tmpk3v9.wav'' 30 1024 paInt16 1 16000 \<lparr>fs = Map.empty, shown = []\<rparr>))
          ''/tmp/tmpk3v9.wav'' = Some (Wave w) \<and>
        wave_duration w \<le> 30 \<and> 30 - 8 / 125 < wave_duration w) \<and>
   read_count 30 1024 16000 = 468"
  using record_audio_duration
          [of "\<lparr>mic = \<lambda>_. replicate 2048 0, demux = \<lambda>_. Inl (ExternalError ''no video''),
                normalize_audio = \<lambda>_. Inl (ExternalError ''no audio''),
                whisper = \<lambda>_. Inl (ExternalError ''no model''),
           whisper_vad = \<lambda>_. Inl (ExternalError ''no model''),
           diarizer = \<lambda>_. Inl (ExternalError ''no model'')\<rparr>"
              30 "''/tmp/tmpk3v9.wav''" "\<lparr>fs = Map.empty, shown = []\<rparr>"]
        read_count_30
  by simp

end
