(* ===== verification/Chunking.thy ===== *)
theory Chunking
  imports PyStr
begin

text \<open>
  The chunked summariser driver of \<^verbatim>\<open>src/main.py\<close>, \<^verbatim>\<open>summarize_text\<close>
  (lines 124-140) with its local \<^verbatim>\<open>split_text\<close> (lines 129-130). The
  summarisation pipeline is an external collaborator: a function that takes the
  collaborator's state (the loaded model and whatever it keeps), a chunk and the
  fixed arguments \<^verbatim>\<open>max_length=150, min_length=30, do_sample=False\<close>, and returns
  the next state and either an exception or the list of result dictionaries. Lemmas
  about the driver hold for every such collaborator; the state makes the order of the
  calls observable.
\<close>

section \<open>Splitting into chunks\<close>

text \<open>The comprehension \<^verbatim>\<open>[text[i:i + chunk_size] for i in range(0, len(text), chunk_size)]\<close>
  for a positive step: the slice at \<open>i\<close> is \<open>take chunk_size (drop i text)\<close>.\<close>

function chunks_from :: "string \<Rightarrow> nat \<Rightarrow> nat \<Rightarrow> string list" where
  "chunks_from text chunk_size i =
     (if 0 < chunk_size \<and> i < length text
      then take chunk_size (drop i text) # chunks_from text chunk_size (i + chunk_size)
      else [])"
  by pat_completeness auto
termination
  by (relation "measure (\<lambda>(text, chunk_size, i). length text - i)") auto

declare chunks_from.simps [simp del]

text \<open>\<^verbatim>\<open>range(0, n, 0)\<close> raises \<^verbatim>\<open>ValueError\<close>; a negative step gives an empty
  range, so no chunk at all.\<close>

definition split_text :: "string \<Rightarrow> int \<Rightarrow> py_error + string list" where
  "split_text text chunk_size =
     (if chunk_size = 0 then Inl (ValueError ''range() arg 3 must not be zero'')
      else if chunk_size < 0 then Inr []
      else Inr (chunks_from text (nat chunk_size) 0))"

section \<open>The summarisation collaborator\<close>

text \<open>A result dictionary of the pipeline, \<^verbatim>\<open>{'summary_text': ...}\<close>.\<close>

type_synonym result_dict = "string \<rightharpoonup> string"

type_synonym 's summarizer =
  "'s \<Rightarrow> string \<Rightarrow> int \<Rightarrow> int \<Rightarrow> bool \<Rightarrow> 's \<times> (py_error + result_dict list)"

text \<open>\<^verbatim>\<open>summary[0]['summary_text']\<close> (line 137) on the outcome of a call: an
  exception of the call passes through; an empty result list raises \<^verbatim>\<open>IndexError\<close>
  and a missing key \<^verbatim>\<open>KeyError\<close>.\<close>

definition first_summary :: "py_error + result_dict list \<Rightarrow> py_error + string" where
  "first_summary outcome =
     (case outcome of
        Inl e \<Rightarrow> Inl e
      | Inr [] \<Rightarrow> Inl (IndexError ''list index out of range'')
      | Inr (r # _) \<Rightarrow>
          (case r ''summary_text'' of
             None \<Rightarrow> Inl (KeyError ''summary_text'')
           | Some s \<Rightarrow> Inr s))"

text \<open>One iteration of the loop of lines 135-137: call the summariser with the fixed
  arguments, then read the summary out of its result.\<close>

definition summarize_chunk :: "'s summarizer \<Rightarrow> 's \<Rightarrow> string \<Rightarrow> 's \<times> (py_error + string)" where
  "summarize_chunk summarizer st chunk =
     (case summarizer st chunk 150 30 False of
        (st', outcome) \<Rightarrow> (st', first_summary outcome))"

fun summarize_chunks ::
  "'s summarizer \<Rightarrow> 's \<Rightarrow> string list \<Rightarrow> string list \<Rightarrow> 's \<times> (py_error + string list)" where
  "summarize_chunks summarizer st [] summaries = (st, Inr summaries)"
| "summarize_chunks summarizer st (chunk # chunks) summaries =
     (case summarize_chunk summarizer st chunk of
        (st', Inl e) \<Rightarrow> (st', Inl e)
      | (st', Inr s) \<Rightarrow> summarize_chunks summarizer st' chunks (summaries @ [s]))"

definition summarize_text :: "'s summarizer \<Rightarrow> 's \<Rightarrow> string \<Rightarrow> 's \<times> (py_error + string)" where
  "summarize_text summarizer st input_text =
     (case split_text input_text 1000 of
        Inl e \<Rightarrow> (st, Inl e)
      | Inr chunks \<Rightarrow>
          (case summarize_chunks summarizer st chunks [] of
             (st', Inl e) \<Rightarrow> (st', Inl e)
           | (st', Inr summaries) \<Rightarrow> (st', Inr (py_join '' '' summaries))))"

section \<open>Instruments for the properties\<close>

text \<open>A collaborator wrapped so that its state also records every call, in call
  order: the chunk it was called on and the outcome it returned.\<close>

type_synonym call_log = "(string \<times> (py_error + result_dict list)) list"

definition logged :: "'s summarizer \<Rightarrow> ('s \<times> call_log) summarizer" where
  "logged summarizer =
     (\<lambda>(st, calls) chunk max_length min_length do_sample.
        case summarizer st chunk max_length min_length do_sample of
          (st', r) \<Rightarrow> ((st', calls @ [(chunk, r)]), r))"

section \<open>Properties of the driver\<close>

lemma concat_chunks_from:
  "0 < k \<Longrightarrow> concat (chunks_from t k i) = drop i t"
proof (induction t k i rule: chunks_from.induct)
  case (1 t k i)
  show ?case
  proof (cases "i < length t")
    case True
    then have "concat (chunks_from t k i) = take k (drop i t) @ drop (i + k) t"
      using "1" by (simp add: chunks_from.simps [of t k i])
    also have "\<dots> = drop i t"
      by (metis add.commute append_take_drop_id drop_drop)
    finally show ?thesis .
  next
    case False
    then show ?thesis using "1.prems" by (simp add: chunks_from.simps [of t k i])
  qed
qed

lemma chunks_from_closed:
  "0 < k \<Longrightarrow> chunks_from t k i =
     map (\<lambda>j. take k (drop (i + j * k) t)) [0..<(length t - i + k - 1) div k]"
proof (induction t k i rule: chunks_from.induct)
  case (1 t k i)
  show ?case
  proof (cases "i < length t")
    case True
    let ?c = "(length t - i + k - 1) div k"
    let ?F = "\<lambda>j. take k (drop (i + j * k) t)"
    have c: "?c = Suc ((length t - (i + k) + k - 1) div k)"
    proof (cases "length t - i \<le> k")
      case True
      with \<open>i < length t\<close> "1.prems" have "?c = 1"
        by (intro div_nat_eqI) auto
      moreover have "(length t - (i + k) + k - 1) div k = 0"
        using True "1.prems" by simp
      ultimately show ?thesis by simp
    next
      case False
      have e1: "length t - i + k - 1 = (length t - i - 1) + k"
        using \<open>i < length t\<close> by auto
      have e2: "length t - (i + k) + k - 1 = length t - i - 1"
        using False by auto
      show ?thesis using "1.prems" by (simp only: e1 e2) simp
    qed
    have IH: "chunks_from t k (i + k) =
        map (\<lambda>j. ?F (Suc j)) [0..<(length t - (i + k) + k - 1) div k]"
      using "1.IH" True "1.prems" by (simp add: add.assoc)
    have "chunks_from t k i = ?F 0 # chunks_from t k (i + k)"
      using True "1.prems" by (simp add: chunks_from.simps [of t k i])
    also have "\<dots> = map ?F [0..<?c]"
      by (simp only: IH c map_upt_Suc)
    finally show ?thesis .
  next
    case False
    have "(length t - i + k - 1) div k = 0" using False "1.prems" by simp
    then show ?thesis using False by (simp add: chunks_from.simps [of t k i])
  qed
qed

lemma summarize_chunk_logged:
  "summarize_chunk (logged summarizer) (st, calls) c =
     (case summarizer st c 150 30 False of (st', r) \<Rightarrow> ((st', calls @ [(c, r)]), first_summary r))"
  by (simp add: summarize_chunk_def logged_def split: prod.splits)

lemma chunk_index_bound:
  fixes j n k :: nat
  assumes "0 < k" and "j < (n + k - 1) div k"
  shows "j * k < n"
proof -
  have "Suc j * k \<le> n + k - 1"
    using assms less_eq_div_iff_mult_less_eq [of k "Suc j" "n + k - 1"] by simp
  then show ?thesis using assms(1) by simp
qed

text \<open>C9: split_text is lossless for every positive chunk size: it raises nothing, and
  concatenating its chunks gives back the text, with no gap, overlap or duplication.\<close>

theorem split_text_roundtrip:
  assumes "0 < chunk_size"
  shows "\<exists>chunks. split_text text chunk_size = Inr chunks \<and> concat chunks = text"
  using assms concat_chunks_from [of "nat chunk_size" "text" 0]
  by (simp add: split_text_def)

theorem split_text_roundtrip_witness:
  "\<exists>chunks. split_text ''abcde'' 2 = Inr chunks \<and> concat chunks = ''abcde''"
  by (rule split_text_roundtrip) simp

text \<open>C10: for a positive chunk size k there are ceil(n / k) chunks for a text of n
  characters; each chunk is non-empty and at most k long, and every chunk but the last
  has exactly k characters.\<close>

theorem split_text_sizes:
  assumes "0 < chunk_size" and "split_text text chunk_size = Inr chunks"
  shows "length chunks = (length text + nat chunk_size - 1) div nat chunk_size \<and>
         (\<forall>j < length chunks. 0 < length (chunks ! j) \<and> length (chunks ! j) \<le> nat chunk_size \<and>
            (Suc j < length chunks \<longrightarrow> length (chunks ! j) = nat chunk_size))"
proof -
  let ?k = "nat chunk_size" and ?n = "length text"
  have k: "0 < ?k" using assms(1) by simp
  have ch: "chunks = map (\<lambda>j. take ?k (drop (j * ?k) text)) [0..<(?n + ?k - 1) div ?k]"
    using assms chunks_from_closed [OF k, of "text" 0] by (simp add: split_text_def)
  have "0 < length (chunks ! j) \<and> length (chunks ! j) \<le> ?k \<and>
        (Suc j < length chunks \<longrightarrow> length (chunks ! j) = ?k)" if j: "j < length chunks" for j
  proof -
    have jn: "j * ?k < ?n" using j k ch chunk_index_bound by simp
    have "Suc j < length chunks \<Longrightarrow> Suc j * ?k < ?n"
      using k ch chunk_index_bound [of ?k "Suc j" ?n] by simp
    then show ?thesis using j jn ch k by (auto simp: min_def)
  qed
  then show ?thesis using ch by simp
qed

theorem split_text_sizes_witness:
  "length [''ab'', ''cd'', ''e''] = (length ''abcde'' + nat 2 - 1) div nat 2 \<and>
   length ([''ab'', ''cd'', ''e''] ! 1) = nat 2 \<and> length ([''ab'', ''cd'', ''e''] ! 2) \<le> nat 2"
proof -
  have "split_text ''abcde'' 2 = Inr [''ab'', ''cd'', ''e'']"
    by (simp add: split_text_def chunks_from.simps)
  from split_text_sizes [of 2 "''abcde''", OF _ this] show ?thesis
    by (simp del: length_Cons)
qed

text \<open>C12: the driver calls the collaborator on the chunks in chunk order, once each,
  and the log of the calls determines the result. On success every chunk was sent and
  the summaries are the summaries read out of the calls' results, in order. On a
  failure the calls are the chunks up to the failing one: every earlier call gave a
  summary, the last call's result is the exception raised, and no later chunk is sent.\<close>

theorem summarize_calls_in_order:
  assumes "summarize_chunks (logged summarizer) (st, calls0) chunks acc = ((st', calls), r)"
  shows "\<exists>new. calls = calls0 @ new \<and>
           (case r of
              Inr outs \<Rightarrow> map fst new = chunks \<and>
                (\<exists>outs'. outs = acc @ outs' \<and> map (\<lambda>(_, res). first_summary res) new = map Inr outs')
            | Inl e \<Rightarrow> (\<exists>k < length chunks. map fst new = take (Suc k) chunks \<and>
                (\<forall>j < k. \<exists>s. first_summary (snd (new ! j)) = Inr s) \<and>
                first_summary (snd (new ! k)) = Inl e))"
  using assms
proof (induction chunks arbitrary: st calls0 acc)
  case Nil
  then show ?case by auto
next
  case (Cons c cs)
  obtain st1 res where call: "summarizer st c 150 30 False = (st1, res)" by fastforce
  show ?case
  proof (cases "first_summary res")
    case (Inl e1)
    then have "st' = st1 \<and> calls = calls0 @ [(c, res)] \<and> r = Inl e1"
      using Cons.prems call by (simp add: summarize_chunk_logged)
    then show ?thesis using Inl by (intro exI [of _ "[(c, res)]"]) auto
  next
    case (Inr s)
    then have "summarize_chunks (logged summarizer) (st1, calls0 @ [(c, res)]) cs (acc @ [s]) =
                 ((st', calls), r)"
      using Cons.prems call by (simp add: summarize_chunk_logged)
    then obtain new where new: "calls = (calls0 @ [(c, res)]) @ new"
      and rest: "case r of
              Inr outs \<Rightarrow> map fst new = cs \<and>
                (\<exists>outs'. outs = (acc @ [s]) @ outs' \<and> map (\<lambda>(_, res). first_summary res) new = map Inr outs')
            | Inl e \<Rightarrow> (\<exists>k < length cs. map fst new = take (Suc k) cs \<and>
                (\<forall>j < k. \<exists>s. first_summary (snd (new ! j)) = Inr s) \<and>
                first_summary (snd (new ! k)) = Inl e)"
      using Cons.IH by blast
    show ?thesis
    proof (cases r)
      case (Inl e)
      with rest obtain k where k: "k < length cs" "map fst new = take (Suc k) cs"
        "\<forall>j < k. \<exists>s. first_summary (snd (new ! j)) = Inr s" "first_summary (snd (new ! k)) = Inl e"
        by auto
      have "\<forall>j < Suc k. \<exists>s. first_summary (snd (((c, res) # new) ! j)) = Inr s"
        using k(3) Inr by (auto simp: less_Suc_eq_0_disj)
      then show ?thesis
        using Inl k new by (intro exI [of _ "(c, res) # new"]) auto
    next
      case (Inr outs)
      with rest obtain outs' where "map fst new = cs" "outs = (acc @ [s]) @ outs'"
        "map (\<lambda>(_, res). first_summary res) new = map Inr outs'"
        by auto
      then show ?thesis
        using Inr \<open>first_summary res = Inr s\<close> new
        by (intro exI [of _ "(c, res) # new"]) auto
    qed
  qed
qed

lemma summarize_chunk_ok:
  assumes "\<forall>st c. \<exists>r rs. snd (summarizer st c 150 30 False) = Inr (r # rs) \<and>
                           r ''summary_text'' = Some (f c)"
  shows "snd (summarize_chunk summarizer st c) = Inr (f c)"
proof -
  obtain r rs where "snd (summarizer st c 150 30 False) = Inr (r # rs)"
    and "r ''summary_text'' = Some (f c)" using assms by blast
  then show ?thesis
    by (cases "summarizer st c 150 30 False") (simp add: summarize_chunk_def first_summary_def)
qed

lemma summarize_chunks_ok:
  assumes "\<forall>st c. \<exists>r rs. snd (summarizer st c 150 30 False) = Inr (r # rs) \<and>
                           r ''summary_text'' = Some (f c)"
  shows "snd (summarize_chunks summarizer st chunks acc) = Inr (acc @ map f chunks)"
proof (induction chunks arbitrary: st acc)
  case Nil
  then show ?case by simp
next
  case (Cons c cs)
  obtain st1 r1 where r1: "summarize_chunk summarizer st c = (st1, r1)" by fastforce
  with summarize_chunk_ok [where summarizer = summarizer and f = f, OF assms, of st c] have "r1 = Inr (f c)" by simp
  with r1 Cons.IH [of st1 "acc @ [f c]"] show ?case by simp
qed

lemma summarize_chunks_fail:
  assumes "\<forall>st c. snd (summarizer st c 150 30 False) = Inl e"
  shows "snd (summarize_chunks summarizer st (c # cs) acc) = Inl e"
proof -
  obtain st1 where "summarizer st c 150 30 False = (st1, Inl e)"
    using assms by (metis prod.collapse)
  then show ?thesis by (simp add: summarize_chunk_def first_summary_def)
qed

lemma summarize_text_ok:
  assumes "\<forall>st c. \<exists>r rs. snd (summarizer st c 150 30 False) = Inr (r # rs) \<and>
                           r ''summary_text'' = Some (f c)"
  shows "snd (summarize_text summarizer st text) =
           Inr (py_join '' '' (map f (chunks_from text 1000 0)))"
  using summarize_chunks_ok [where summarizer = summarizer and f = f, OF assms, of st "chunks_from text 1000 0" "[]"]
  by (cases "summarize_chunks summarizer st (chunks_from text 1000 0) []")
     (simp add: summarize_text_def split_text_def)

lemma summarize_text_fail:
  assumes "text \<noteq> []" and "\<forall>st c. snd (summarizer st c 150 30 False) = Inl e"
  shows "snd (summarize_text summarizer st text) = Inl e"
proof -
  obtain c cs where "chunks_from text 1000 0 = c # cs"
    using assms(1) by (simp add: chunks_from.simps [of "text" 1000 0])
  then show ?thesis
    using summarize_chunks_fail [where summarizer = summarizer and e = e, OF assms(2), of st c cs "[]"]
    by (cases "summarize_chunks summarizer st (c # cs) []")
       (simp add: summarize_text_def split_text_def)
qed

theorem summarize_calls_in_order_witness:
  "summarize_chunks (logged (\<lambda>st c _ _ _. (st, if c = ''b'' then Inl (ExternalError c)
                                               else Inr [[''summary_text'' \<mapsto> c]])))
     (0::nat, []) [''a'', ''b'', ''c''] [] =
     ((0, [(''a'', Inr [[''summary_text'' \<mapsto> ''a'']]), (''b'', Inl (ExternalError ''b''))]),
      Inl (ExternalError ''b'')) \<and>
   map fst [(''a'', Inr [[''summary_text'' \<mapsto> ''a'']]), (''b'', Inl (ExternalError ''b''))] =
     take (Suc 1) [''a'', ''b'', ''c'']"
proof -
  have run: "summarize_chunks (logged (\<lambda>st c _ _ _. (st, if c = ''b'' then Inl (ExternalError c)
                                               else Inr [[''summary_text'' \<mapsto> c]])))
     (0::nat, []) [''a'', ''b'', ''c''] [] =
     ((0, [(''a'', Inr [[''summary_text'' \<mapsto> ''a'']]), (''b'', Inl (ExternalError ''b''))]),
      Inl (ExternalError ''b''))"
    by (simp add: logged_def summarize_chunk_def first_summary_def)
  from summarize_calls_in_order [OF run] run show ?thesis by simp
qed

text \<open>C11: when the collaborator returns a well-formed result for every chunk, the
  summary is the per-chunk summaries, in chunk order, joined with single spaces.\<close>

theorem summarize_text_joins:
  assumes "\<forall>st c. \<exists>r rs. snd (summarizer st c 150 30 False) = Inr (r # rs) \<and>
                           r ''summary_text'' = Some (f c)"
  shows "snd (summarize_text summarizer st text) =
           Inr (py_join '' '' (map f (chunks_from text 1000 0)))"
  using assms by (rule summarize_text_ok)

theorem summarize_text_joins_witness:
  "snd (summarize_text (\<lambda>st c _ _ _. (st, Inr [[''summary_text'' \<mapsto> take 1 c]])) (0::nat) ''hello'') =
   Inr ''h''"
proof -
  have "snd (summarize_text (\<lambda>st c _ _ _. (st, Inr [[''summary_text'' \<mapsto> take 1 c]])) (0::nat) ''hello'') =
        Inr (py_join '' '' (map (take 1) (chunks_from ''hello'' 1000 0)))"
    by (rule summarize_text_joins) simp
  then show ?thesis by (simp add: chunks_from.simps)
qed

lemma summarize_chunks_fail_at:
  assumes "\<forall>st x. x \<in> set xs \<longrightarrow> (\<exists>s. snd (summarize_chunk summarizer st x) = Inr s)"
    and "\<forall>st. snd (summarize_chunk summarizer st c) = Inl e"
  shows "snd (summarize_chunks summarizer st (xs @ c # ys) acc) = Inl e"
  using assms(1)
proof (induction xs arbitrary: st acc)
  case Nil
  obtain st1 where "summarize_chunk summarizer st c = (st1, Inl e)"
    using assms(2) by (metis prod.collapse)
  then show ?case by simp
next
  case (Cons x xs)
  obtain st1 s where "summarize_chunk summarizer st x = (st1, Inr s)"
    using Cons.prems by (metis list.set_intros(1) prod.collapse)
  then show ?case using Cons.IH [of st1 "acc @ [s]"] Cons.prems by simp
qed

lemma summarize_chunk_summary:
  "snd (summarizer st x 150 30 False) = Inr (d # ds) \<Longrightarrow> d ''summary_text'' = Some s \<Longrightarrow>
   snd (summarize_chunk summarizer st x) = Inr s"
  by (cases "summarizer st x 150 30 False") (simp add: summarize_chunk_def first_summary_def)

lemma summarize_chunk_exception:
  "snd (summarizer st x 150 30 False) = Inl e \<Longrightarrow> snd (summarize_chunk summarizer st x) = Inl e"
  by (cases "summarizer st x 150 30 False") (simp add: summarize_chunk_def first_summary_def)

text \<open>C13: a failure of the collaborator on any chunk is not recovered locally: when the
  calls on the chunks before it give well-formed results and the call on that chunk
  raises, summarize_text raises that exception and returns no summary, partial or not.\<close>

theorem summarize_error_propagates:
  assumes "chunks_from text 1000 0 = xs @ c # ys"
    and "\<forall>st x. x \<in> set xs \<longrightarrow>
           (\<exists>d ds s. snd (summarizer st x 150 30 False) = Inr (d # ds) \<and> d ''summary_text'' = Some s)"
    and "\<forall>st. snd (summarizer st c 150 30 False) = Inl e"
  shows "snd (summarize_text summarizer st text) = Inl e"
proof -
  have "\<forall>st x. x \<in> set xs \<longrightarrow> (\<exists>s. snd (summarize_chunk summarizer st x) = Inr s)"
    using assms(2) summarize_chunk_summary by metis
  moreover have "\<forall>st. snd (summarize_chunk summarizer st c) = Inl e"
    using assms(3) by (blast intro: summarize_chunk_exception)
  ultimately have "snd (summarize_chunks summarizer st (xs @ c # ys) []) = Inl e"
    by (rule summarize_chunks_fail_at)
  then show ?thesis
    using assms(1)
    by (cases "summarize_chunks summarizer st (xs @ c # ys) []") (simp add: summarize_text_def split_text_def)
qed

theorem summarize_error_propagates_witness:
  "snd (summarize_text (\<lambda>st c _ _ _. (st, if length c < 1000 then Inl (ExternalError ''CUDA out of memory'')
                                        else Inr [[''summary_text'' \<mapsto> take 3 c]]))
          (0::nat) (replicate 1000 CHR ''a'' @ ''b'')) =
   Inl (ExternalError ''CUDA out of memory'')"
proof -
  have "chunks_from (replicate 1000 CHR ''a'' @ ''b'') 1000 0 = [replicate 1000 CHR ''a''] @ ''b'' # []"
    by (simp add: chunks_from_closed upt_rec)
  then show ?thesis
    by (rule summarize_error_propagates) simp_all
qed

text \<open>A negative chunk size is not rejected: split_text raises nothing and returns no
  chunk, so the whole text would be dropped before summarisation.\<close>

lemma split_text_negative_drops_text:
  "chunk_size < 0 \<Longrightarrow> split_text text chunk_size = Inr []"
  by (simp add: split_text_def)

text \<open>C23: a malformed result is an error too: a summariser that returns an empty result
  list makes \<^verbatim>\<open>summary[0]\<close> raise IndexError, which leaves summarize_text.\<close>

theorem summarize_empty_result_index_error:
  assumes "text \<noteq> []" and "\<forall>st c. snd (summarizer st c 150 30 False) = Inr []"
  shows "snd (summarize_text summarizer st text) = Inl (IndexError ''list index out of range'')"
proof -
  obtain c cs where ch: "chunks_from text 1000 0 = c # cs"
    using assms(1) by (simp add: chunks_from.simps [of "text" 1000 0])
  obtain st1 where "summarizer st c 150 30 False = (st1, Inr [])"
    using assms(2) by (metis prod.collapse)
  then have "snd (summarize_chunks summarizer st (c # cs) []) = Inl (IndexError ''list index out of range'')"
    by (simp add: summarize_chunk_def first_summary_def)
  with ch show ?thesis
    by (cases "summarize_chunks summarizer st (c # cs) []") (simp add: summarize_text_def split_text_def)
qed

theorem summarize_empty_result_index_error_witness:
  "snd (summarize_text (\<lambda>st c _ _ _. (st, Inr [])) (0::nat) ''hello'') =
   Inl (IndexError ''list index out of range'')"
  by (rule summarize_empty_result_index_error) simp_all

end
