(* ===== verification/Cleaner.thy ===== *)
theory Cleaner
  imports PyStr
begin

text \<open>
  The text cleaner of \<^verbatim>\<open>src/main.py\<close>, \<^verbatim>\<open>clean_summary_text\<close> (lines 143-146):
  a \<^verbatim>\<open>re.sub\<close> that deletes the filler words, a \<^verbatim>\<open>re.sub\<close> that replaces every
  run of whitespace by one space, and \<^verbatim>\<open>str.strip\<close>. The first substitution is
  modelled as the scan \<^verbatim>\<open>re.sub\<close> performs: from left to right, at each position
  the alternatives of \<^verbatim>\<open>\b(?:um|uh|like|so|you know|well)\b\<close> are tried in order,
  case-insensitively; a match is deleted and the scan resumes after it, otherwise the
  character is kept. Word boundaries are read in the original string, so the scan
  carries the character before the current position.
\<close>

section \<open>Filler removal\<close>

definition fillers :: "string list" where
  "fillers = [''um'', ''uh'', ''like'', ''so'', ''you know'', ''well'']"

definition char_at :: "string \<Rightarrow> nat \<Rightarrow> char option" where
  "char_at s i = (if i < length s then Some (s ! i) else None)"

definition word_opt :: "char option \<Rightarrow> bool" where
  "word_opt c = (case c of None \<Rightarrow> False | Some x \<Rightarrow> py_isword x)"

text \<open>\<^verbatim>\<open>\b\<close> between the characters \<open>left\<close> and \<open>right\<close> (\<open>None\<close> at either end).\<close>

definition word_boundary :: "char option \<Rightarrow> char option \<Rightarrow> bool" where
  "word_boundary left right \<longleftrightarrow> word_opt left \<noteq> word_opt right"

text \<open>A literal of the pattern matches at the start of \<open>s\<close> under \<^verbatim>\<open>re.IGNORECASE\<close>;
  the literals are lower case.\<close>

definition ci_prefix :: "string \<Rightarrow> string \<Rightarrow> bool" where
  "ci_prefix w s \<longleftrightarrow> length w \<le> length s \<and> map py_lower (take (length w) s) = w"

text \<open>The alternation with both boundaries, tried at the start of \<open>s\<close>, \<open>prev\<close> being
  the character before it: the length of the first alternative that matches.\<close>

fun filler_match :: "char option \<Rightarrow> string \<Rightarrow> string list \<Rightarrow> nat option" where
  "filler_match prev s [] = None"
| "filler_match prev s (w # ws) =
     (if word_boundary prev (char_at s 0) \<and> ci_prefix w s \<and>
         word_boundary (char_at s (length w - 1)) (char_at s (length w))
      then Some (length w) else filler_match prev s ws)"

lemma filler_match_length:
  "filler_match prev s ws = Some k \<Longrightarrow> k \<in> length ` set ws"
  by (induction prev s ws rule: filler_match.induct) (auto split: if_splits)

lemma fillers_nonempty: "k \<in> length ` set fillers \<Longrightarrow> 0 < k"
  by (auto simp: fillers_def)

lemma filler_match_pos: "filler_match prev s fillers = Some k \<Longrightarrow> 0 < k"
  using filler_match_length fillers_nonempty by blast

function sub_fillers :: "char option \<Rightarrow> string \<Rightarrow> string" where
  "sub_fillers prev [] = []"
| "sub_fillers prev (c # cs) =
     (case filler_match prev (c # cs) fillers of
        Some k \<Rightarrow> sub_fillers (char_at (c # cs) (k - 1)) (drop k (c # cs))
      | None \<Rightarrow> c # sub_fillers (Some c) cs)"
  by pat_completeness auto
termination
  by (relation "measure (\<lambda>(prev, s). length s)") (auto dest: filler_match_pos)

section \<open>Whitespace\<close>

text \<open>\<^verbatim>\<open>re.sub(r'\s+', ' ', text)\<close>: each maximal run of whitespace becomes one space.\<close>

function collapse_ws :: "string \<Rightarrow> string" where
  "collapse_ws [] = []"
| "collapse_ws (c # cs) =
     (if py_isspace c then CHR '' '' # collapse_ws (dropWhile py_isspace cs)
      else c # collapse_ws cs)"
  by pat_completeness auto
termination
  by (relation "measure length") (auto simp: le_imp_less_Suc length_dropWhile_le)

definition clean_summary_text :: "string \<Rightarrow> string" where
  "clean_summary_text text = py_strip (collapse_ws (sub_fillers None text))"

section \<open>Whitespace normal form\<close>

text \<open>What the spec's "collapse any run of whitespace to a single space and trim"
  leaves: the only whitespace is the space, never two in a row, none at either end.\<close>

definition ws_normal :: "string \<Rightarrow> bool" where
  "ws_normal s \<longleftrightarrow>
     (\<forall>c \<in> set s. py_isspace c \<longrightarrow> c = CHR '' '') \<and> \<not> sublist ''  '' s \<and>
     (s \<noteq> [] \<longrightarrow> \<not> py_isspace (hd s) \<and> \<not> py_isspace (last s))"

section \<open>Lemmas on the stages\<close>

lemma collapse_ws_spaces:
  "c \<in> set (collapse_ws s) \<Longrightarrow> py_isspace c \<Longrightarrow> c = CHR '' ''"
  by (induction s rule: collapse_ws.induct) (auto split: if_splits)

lemma collapse_ws_hd:
  "s \<noteq> [] \<Longrightarrow> \<not> py_isspace (hd s) \<Longrightarrow> collapse_ws s = hd s # collapse_ws (tl s)"
  by (cases s) auto

lemma collapse_ws_no_double: "\<not> sublist ''  '' (collapse_ws s)"
proof (induction s rule: collapse_ws.induct)
  case 1
  then show ?case by simp
next
  case (2 c cs)
  show ?case
  proof (cases "py_isspace c")
    case True
    let ?r = "dropWhile py_isspace cs"
    show ?thesis
    proof (cases "?r = []")
      case True
      with \<open>py_isspace c\<close> show ?thesis by (auto simp del: dropWhile_eq_Nil_conv dest: sublist_length_le)
    next
      case False
      then have "\<not> py_isspace (hd ?r)" by (rule hd_dropWhile)
      then have "hd ?r \<noteq> CHR '' ''" and "collapse_ws ?r = hd ?r # collapse_ws (tl ?r)"
        using py_isspace_space collapse_ws_hd [OF False] by auto
      then show ?thesis
        using \<open>py_isspace c\<close> "2.IH"(1) by (auto simp: sublist_Cons_right)
    qed
  next
    case False
    then have "c \<noteq> CHR '' ''" using py_isspace_space by auto
    then show ?thesis using False "2.IH"(2) by (auto simp: sublist_Cons_right)
  qed
qed

lemma py_strip_sublist: "sublist (py_strip s) s"
proof -
  have "sublist (dropWhile py_isspace (rev (dropWhile py_isspace s))) (rev (dropWhile py_isspace s))"
    by simp
  then have "sublist (py_strip s) (dropWhile py_isspace s)"
    by (simp add: py_strip_def sublist_rev_left)
  then show ?thesis
    using sublist_dropWhile sublist_order.order_trans by blast
qed

lemma py_strip_ends:
  assumes "py_strip s \<noteq> []"
  shows "\<not> py_isspace (hd (py_strip s)) \<and> \<not> py_isspace (last (py_strip s))"
proof -
  let ?t = "dropWhile py_isspace s"
  let ?x = "dropWhile py_isspace (rev ?t)"
  have x: "?x \<noteq> []" using assms by (simp add: py_strip_def)
  then have t: "?t \<noteq> []" by (metis Nil_is_rev_conv dropWhile.simps(1))
  have "last (py_strip s) = hd ?x" using x by (simp add: py_strip_def last_rev)
  moreover have "\<not> py_isspace (hd ?x)" using x by (rule hd_dropWhile)
  moreover have "hd (py_strip s) = last ?x" using x by (simp add: py_strip_def hd_rev)
  moreover have "last ?x = last (rev ?t)"
    using x by (rule last_dropWhile)
  moreover have "last (rev ?t) = hd ?t" using t by (simp add: last_rev)
  moreover have "\<not> py_isspace (hd ?t)" using t by (rule hd_dropWhile)
  ultimately show ?thesis by simp
qed

lemma ws_normal_strip_collapse: "ws_normal (py_strip (collapse_ws s))"
proof -
  have sub: "sublist (py_strip (collapse_ws s)) (collapse_ws s)" by (rule py_strip_sublist)
  have "set (py_strip (collapse_ws s)) \<subseteq> set (collapse_ws s)"
    using sub by (rule set_mono_sublist)
  moreover have "\<not> sublist ''  '' (py_strip (collapse_ws s))"
    using sub collapse_ws_no_double sublist_order.order_trans by blast
  ultimately show ?thesis
    unfolding ws_normal_def using py_strip_ends collapse_ws_spaces by blast
qed

lemma collapse_ws_normal_id:
  "(\<forall>c \<in> set s. py_isspace c \<longrightarrow> c = CHR '' '') \<Longrightarrow> \<not> sublist ''  '' s \<Longrightarrow> collapse_ws s = s"
proof (induction s rule: collapse_ws.induct)
  case 1
  then show ?case by simp
next
  case (2 c cs)
  have tail: "\<not> sublist ''  '' cs" using "2.prems"(2) by (auto simp: sublist_Cons_right)
  show ?case
  proof (cases "py_isspace c")
    case True
    then have c: "c = CHR '' ''" using "2.prems"(1) by simp
    have "dropWhile py_isspace cs = cs"
    proof (cases cs)
      case (Cons d ds)
      have "d \<noteq> CHR '' ''" using "2.prems"(2) c Cons by (auto simp: sublist_Cons_right)
      then have "\<not> py_isspace d" using "2.prems"(1) Cons by auto
      then show ?thesis using Cons by simp
    qed simp
    moreover have "collapse_ws cs = cs"
      using "2.IH"(1) [OF True] "2.prems"(1) tail \<open>dropWhile py_isspace cs = cs\<close> by simp
    ultimately show ?thesis using True c by (simp only: collapse_ws.simps if_True)
  next
    case False
    have "collapse_ws cs = cs" using "2.IH"(2) [OF False] "2.prems"(1) tail by simp
    then show ?thesis using False by simp
  qed
qed

lemma py_strip_normal_id:
  assumes "s \<noteq> [] \<Longrightarrow> \<not> py_isspace (hd s) \<and> \<not> py_isspace (last s)"
  shows "py_strip s = s"
proof (cases "s = []")
  case False
  with assms have "dropWhile py_isspace s = s" and "dropWhile py_isspace (rev s) = rev s"
    by (simp_all add: dropWhile_eq_self_iff hd_rev)
  then show ?thesis by (simp add: py_strip_def)
qed (simp add: py_strip_def)

lemma ws_normal_fixed:
  assumes "ws_normal s"
  shows "py_strip (collapse_ws s) = s"
proof -
  from assms have "collapse_ws s = s"
    unfolding ws_normal_def by (intro collapse_ws_normal_id) simp_all
  moreover from assms have "py_strip s = s"
    unfolding ws_normal_def by (intro py_strip_normal_id) simp
  ultimately show ?thesis by simp
qed

lemma py_lower_word: "py_isword (py_lower c) = py_isword c"
  by (auto simp: py_lower_def py_isword_def Let_def)

lemma py_lower_idem: "py_lower (py_lower c) = py_lower c"
  by (auto simp: py_lower_def Let_def)

lemma py_lower_space: "py_lower c = CHR '' '' \<longleftrightarrow> c = CHR '' ''"
proof
  assume h: "py_lower c = CHR '' ''"
  show "c = CHR '' ''"
  proof (cases "65 \<le> (of_char c :: nat) \<and> (of_char c :: nat) \<le> 90")
    case True
    then have "(of_char (py_lower c) :: nat) = of_char c + 32"
      by (simp add: py_lower_def)
    with h True show ?thesis by simp
  next
    case False
    then show ?thesis using h by (auto simp: py_lower_def Let_def split: if_splits)
  qed
qed (simp add: py_lower_def)

lemma filler_match_no_start:
  "\<not> word_boundary prev (char_at s 0) \<Longrightarrow> filler_match prev s ws = None"
  by (induction ws) auto

lemma sub_fillers_inside_word:
  "\<forall>c \<in> set s. py_isword c \<Longrightarrow> py_isword p \<Longrightarrow> sub_fillers (Some p) s = s"
proof (induction s arbitrary: p)
  case Nil
  then show ?case by simp
next
  case (Cons c cs)
  have "filler_match (Some p) (c # cs) fillers = None"
    using Cons.prems
    by (intro filler_match_no_start) (simp add: word_boundary_def word_opt_def char_at_def)
  then show ?case using Cons by simp
qed

lemma filler_match_whole_word:
  assumes "\<forall>c \<in> set w. py_isword c" and "map py_lower w \<notin> set ws" and "[] \<notin> set ws"
  shows "filler_match None w ws = None"
  using assms(2,3)
proof (induction ws)
  case Nil
  then show ?case by simp
next
  case (Cons f fs)
  have "\<not> (ci_prefix f w \<and> word_boundary (char_at w (length f - 1)) (char_at w (length f)))"
  proof
    assume m: "ci_prefix f w \<and> word_boundary (char_at w (length f - 1)) (char_at w (length f))"
    then have le: "length f \<le> length w" and f: "map py_lower (take (length f) w) = f"
      by (auto simp: ci_prefix_def)
    have "0 < length f" using Cons.prems by auto
    then have "length f - 1 < length w" using le by arith
    then have "word_opt (char_at w (length f - 1))"
      using assms(1) by (simp add: word_opt_def char_at_def)
    moreover have "length f < length w \<Longrightarrow> word_opt (char_at w (length f))"
      using assms(1) by (auto simp: word_opt_def char_at_def)
    ultimately have "\<not> length f < length w"
      using m by (auto simp: word_boundary_def)
    then have "length f = length w" using le by simp
    then show False using f Cons.prems by simp
  qed
  then show ?case using Cons by auto
qed


lemma filler_match_lower:
  "filler_match prev w ws = filler_match prev (map py_lower w) ws"
proof (induction ws)
  case Nil
  then show ?case by simp
next
  case (Cons f fs)
  have cw: "word_opt (char_at (map py_lower w) i) = word_opt (char_at w i)" for i
    by (simp add: word_opt_def char_at_def py_lower_word)
  have cp: "ci_prefix f (map py_lower w) = ci_prefix f w"
    by (simp add: ci_prefix_def take_map py_lower_idem comp_def)
  show ?case using Cons cw cp by (simp add: word_boundary_def)
qed

lemma fillers_match_themselves:
  "\<forall>f \<in> set fillers. filler_match None f fillers = Some (length f)"
  by code_simp

section \<open>Properties of the cleaner\<close>

text \<open>C14: the cleaned text is in whitespace normal form: its only whitespace character
  is the space, no two spaces are adjacent, and it neither starts nor ends with
  whitespace.\<close>

theorem clean_summary_text_normal_form: "ws_normal (clean_summary_text text)"
  unfolding clean_summary_text_def by (rule ws_normal_strip_collapse)

theorem clean_summary_text_normal_form_witness:
  "\<not> sublist ''  '' (clean_summary_text '' um  a  b '')"
  using clean_summary_text_normal_form [of "'' um  a  b ''"] by (simp add: ws_normal_def)

text \<open>C15: the whitespace stage of the cleaner (collapse runs of whitespace to one
  space, then strip) leaves a text unchanged exactly when the text is already in
  whitespace normal form: only spaces, never two in a row, none at either end.\<close>

theorem whitespace_stage_fixed_points: "py_strip (collapse_ws s) = s \<longleftrightarrow> ws_normal s"
proof
  assume "py_strip (collapse_ws s) = s"
  then show "ws_normal s" using ws_normal_strip_collapse [of s] by simp
next
  assume "ws_normal s"
  then show "py_strip (collapse_ws s) = s" by (rule ws_normal_fixed)
qed

theorem whitespace_stage_fixed_points_witness:
  "py_strip (collapse_ws ''a b'') = ''a b'' \<and> py_strip (collapse_ws ''a  b '') \<noteq> ''a  b ''"
proof -
  have "ws_normal ''a b''" and "\<not> ws_normal ''a  b ''" by code_simp+
  then show ?thesis
    using whitespace_stage_fixed_points [of "''a b''"] whitespace_stage_fixed_points [of "''a  b ''"]
    by simp
qed

text \<open>The cleaner as a whole is not idempotent, against the spec (section 4.5):
  deleting a filler can bring two words together into a new filler. "you um know"
  cleans to "you know", which cleans to the empty text.\<close>

lemma clean_counterexample_idempotence:
  "clean_summary_text ''you um know'' = ''you know'' \<and>
   clean_summary_text (clean_summary_text ''you um know'') = []"
  by code_simp

text \<open>C16: fillers are matched on word boundaries only: a word that contains a filler
  but is not one (in any letter case) is kept unchanged.\<close>

theorem clean_keeps_longer_words:
  assumes "w \<noteq> []" and "\<forall>c \<in> set w. py_isword c" and "map py_lower w \<notin> set fillers"
  shows "clean_summary_text w = w"
proof -
  obtain c cs where w: "w = c # cs" using assms(1) by (cases w) auto
  have nil: "[] \<notin> set fillers" by (simp add: fillers_def)
  have "filler_match None w fillers = None"
    using assms(2,3) nil by (rule filler_match_whole_word)
  then have sub: "sub_fillers None w = w"
    using w assms(2) sub_fillers_inside_word [of cs c] by simp
  have nospace: "\<forall>c \<in> set w. \<not> py_isspace c"
    using assms(2) py_isspace_not_word by blast
  have "\<not> sublist ''  '' w"
    using nospace py_isspace_space by (auto dest: set_mono_sublist)
  then have "collapse_ws w = w"
    using nospace by (intro collapse_ws_normal_id) auto
  moreover have "py_strip w = w"
    using nospace by (intro py_strip_normal_id) simp
  ultimately show ?thesis using sub by (simp add: clean_summary_text_def)
qed

theorem clean_keeps_longer_words_witness: "clean_summary_text ''Umbrella'' = ''Umbrella''"
  by (rule clean_keeps_longer_words) (simp_all add: py_isword_def py_lower_def fillers_def)

text \<open>C17: a filler standing alone is removed in any letter case.\<close>

theorem clean_removes_standalone_filler:
  assumes "map py_lower w \<in> set fillers"
  shows "clean_summary_text w = []"
proof -
  have m: "filler_match None w fillers = Some (length w)"
    using fillers_match_themselves assms filler_match_lower [of None w fillers] by simp
  have "w \<noteq> []" using assms by (auto simp: fillers_def)
  then obtain c cs where w: "w = c # cs" by (cases w) auto
  then have "sub_fillers None w = []" using m by simp
  then show ?thesis by (simp add: clean_summary_text_def py_strip_def)
qed

theorem clean_removes_standalone_filler_witness: "clean_summary_text ''LiKe'' = []"
proof -
  have "map py_lower ''LiKe'' \<in> set fillers" by code_simp
  then show ?thesis by (rule clean_removes_standalone_filler)
qed

end
