(* ===== verification/Bullets.thy ===== *)
theory Bullets
  imports Cleaner
begin

text \<open>
  The bullet formatter of \<^verbatim>\<open>src/main.py\<close>, \<^verbatim>\<open>summary_to_bullets\<close>
  (lines 149-153): clean the summary with \<^verbatim>\<open>clean_summary_text\<close> (theory
  \<open>Cleaner\<close>), split it on the literal \<^verbatim>\<open>'. '\<close>, keep the pieces whose length,
  before trimming, exceeds 10, and join \<^verbatim>\<open>"- " + piece.strip()\<close> with newlines.
\<close>

section \<open>The formatter\<close>

definition keep_sentence :: "string \<Rightarrow> bool" where
  "keep_sentence sentence \<longleftrightarrow> 10 < length sentence \<and> sentence \<noteq> []"

definition summary_to_bullets :: "string \<Rightarrow> string" where
  "summary_to_bullets summary_text =
     (let cleaned = clean_summary_text summary_text;
          sentences = py_split ''. '' cleaned;
          bullet_points = map (\<lambda>sentence. ''- '' @ py_strip sentence) (filter keep_sentence sentences)
      in py_join [newline] bullet_points)"

section \<open>Properties of the formatter\<close>

lemma ws_normal_clean: "ws_normal (clean_summary_text t)"
  unfolding clean_summary_text_def by (rule ws_normal_strip_collapse)

lemma ws_normal_piece_hd:
  assumes "ws_normal s" "p \<in> set (py_split ''. '' s)" "p \<noteq> []"
  shows "\<not> py_isspace (hd p)"
proof
  assume sp: "py_isspace (hd p)"
  have "hd p \<in> set s" using assms(2,3) py_split_chars by fastforce
  then have "hd p = CHR '' ''" using sp assms(1) by (auto simp: ws_normal_def)
  then obtain q where q: "p = CHR '' '' # q" using assms(3) by (cases p) auto
  consider "prefix p s" | "sublist (''. '' @ p) s"
    using py_split_piece_context [OF _ assms(2)] by auto
  then show False
  proof cases
    case 1
    then have "s \<noteq> [] \<and> hd s = CHR '' ''" using q by (auto simp: prefix_def)
    then show False using assms(1) py_isspace_space by (auto simp: ws_normal_def)
  next
    case 2
    have "sublist ''  '' (''. '' @ p)" using q by (simp add: sublist_Cons_right)
    then have "sublist ''  '' s" using 2 sublist_order.order_trans by blast
    then show False using assms(1) by (simp add: ws_normal_def)
  qed
qed

lemma dropWhile_single_space:
  assumes "\<forall>c \<in> set q. py_isspace c \<longrightarrow> c = CHR '' ''" "\<not> sublist ''  '' q"
  shows "length q \<le> Suc (length (dropWhile py_isspace q))"
proof (cases q rule: remdups_adj.cases)
  case (3 a b r)
  show ?thesis
  proof (cases "py_isspace a \<and> py_isspace b")
    case True
    then have "q = ''  '' @ r" using assms(1) 3 by auto
    then show ?thesis using assms(2) by (metis sublist_append_rightI)
  qed (use 3 in auto)
qed auto

lemma py_strip_drops_one:
  assumes "\<forall>c \<in> set p. py_isspace c \<longrightarrow> c = CHR '' ''" "\<not> sublist ''  '' p"
    and "p \<noteq> [] \<longrightarrow> \<not> py_isspace (hd p)"
  shows "length p \<le> Suc (length (py_strip p))"
proof -
  have "dropWhile py_isspace p = p" using assms(3) by (cases p) auto
  then have "py_strip p = rev (dropWhile py_isspace (rev p))" by (simp add: py_strip_def)
  moreover have "\<not> sublist ''  '' (rev p)" using assms(2) by (simp add: sublist_rev_right)
  ultimately show ?thesis
    using dropWhile_single_space [of "rev p"] assms(1) by simp
qed

lemma ws_normal_piece_strip:
  assumes "ws_normal s" "p \<in> set (py_split ''. '' s)"
  shows "length p \<le> Suc (length (py_strip p))"
proof (rule py_strip_drops_one)
  have sub: "set p \<subseteq> set s" using assms(2) by (rule py_split_chars)
  then show "\<forall>c \<in> set p. py_isspace c \<longrightarrow> c = CHR '' ''"
    using assms(1) by (auto simp: ws_normal_def)
  have "sublist p s"
    using py_split_piece_context [OF _ assms(2)] sublist_order.order_trans by blast
  then show "\<not> sublist ''  '' p"
    using assms(1) sublist_order.order_trans by (auto simp: ws_normal_def)
  show "p \<noteq> [] \<longrightarrow> \<not> py_isspace (hd p)"
    using ws_normal_piece_hd [OF assms] by blast
qed

lemma clean_no_newline: "newline \<notin> set (clean_summary_text t)"
proof
  assume "newline \<in> set (clean_summary_text t)"
  moreover have "ws_normal (clean_summary_text t)" by (rule ws_normal_clean)
  ultimately show False
    using py_isspace_newline by (auto simp: ws_normal_def)
qed

lemma bullet_points_no_newline:
  "x \<in> set (map (\<lambda>sentence. ''- '' @ py_strip sentence)
               (filter keep_sentence (py_split ''. '' (clean_summary_text t)))) \<Longrightarrow>
   newline \<notin> set x"
  using clean_no_newline [of t] py_split_chars py_strip_chars by fastforce

lemma summary_to_bullets_lines:
  assumes "summary_to_bullets t \<noteq> []"
  shows "py_split [newline] (summary_to_bullets t) =
           map (\<lambda>sentence. ''- '' @ py_strip sentence)
               (filter keep_sentence (py_split ''. '' (clean_summary_text t)))"
proof -
  let ?bs = "map (\<lambda>sentence. ''- '' @ py_strip sentence)
               (filter keep_sentence (py_split ''. '' (clean_summary_text t)))"
  have out: "summary_to_bullets t = py_join [newline] ?bs"
    by (simp add: summary_to_bullets_def Let_def)
  have "?bs \<noteq> []" using assms out by auto
  then show ?thesis
    using out bullet_points_no_newline [of _ t] by (simp add: py_split_join_single)
qed

text \<open>C18: when the formatter emits anything, every line of its output is a bullet:
  the text between line breaks always starts with "- ".\<close>

theorem bullet_lines_start_with_dash:
  assumes "summary_to_bullets t \<noteq> []"
  shows "\<forall>l \<in> set (py_split [newline] (summary_to_bullets t)). take 2 l = ''- ''"
  using summary_to_bullets_lines [OF assms] by auto

theorem bullet_lines_start_with_dash_witness:
  "py_split [newline] (summary_to_bullets ''First point here. Second point here.'') =
     [''- First point here'', ''- Second point here.'']"
proof -
  have out: "summary_to_bullets ''First point here. Second point here.'' =
               ''- First point here'' @ [newline] @ ''- Second point here.''"
    by code_simp
  have "\<forall>l \<in> set (py_split [newline] (summary_to_bullets ''First point here. Second point here.'')).
          take 2 l = ''- ''"
    by (rule bullet_lines_start_with_dash) (simp add: out)
  moreover have "py_split [newline] (''- First point here'' @ [newline] @ ''- Second point here.'') =
                   [''- First point here'', ''- Second point here.'']"
    by code_simp
  ultimately show ?thesis using out by simp
qed

text \<open>The length test is made before trimming: a piece of 11 characters whose last
  is a space becomes a bullet whose text has 10 characters, although the spec (sections
  4.7 and 8) drops every unit whose trimmed length is at most 10.\<close>

lemma bullet_threshold_before_trim:
  "summary_to_bullets ''0123456789 . tail'' = ''- 0123456789'' \<and>
   length (py_strip ''0123456789 '') = 10"
  by code_simp

text \<open>The spec's bullet scenario. "A short one. This sentence is definitely long
  enough. No." gives two bullets, "- A short one" (11 characters, kept) and
  "- This sentence is definitely long enough" (the separator takes its period), where
  the spec expects the middle sentence only, with its period.\<close>

lemma scenario_bullets:
  "summary_to_bullets ''A short one. This sentence is definitely long enough. No.'' =
     ''- A short one'' @ [newline] @ ''- This sentence is definitely long enough''"
  by code_simp

text \<open>C24: the bound the threshold does give. Every line of the formatter's output is a
  bullet whose text, after the "- ", has at least 10 characters: the cleaned summary has
  no leading space in any piece and never two spaces in a row, so trimming a kept piece
  (more than 10 characters) removes at most its one trailing space. With the example of
  \<open>bullet_threshold_before_trim\<close>, 10 is exactly the bound.\<close>

theorem bullet_text_length:
  assumes "summary_to_bullets t \<noteq> []"
  shows "\<forall>l \<in> set (py_split [newline] (summary_to_bullets t)). 10 \<le> length (drop 2 l)"
proof
  fix l
  assume "l \<in> set (py_split [newline] (summary_to_bullets t))"
  then obtain p where p: "p \<in> set (py_split ''. '' (clean_summary_text t))"
      "keep_sentence p" "l = ''- '' @ py_strip p"
    using summary_to_bullets_lines [OF assms] by auto
  have "length p \<le> Suc (length (py_strip p))"
    using ws_normal_clean p(1) by (rule ws_normal_piece_strip)
  then show "10 \<le> length (drop 2 l)"
    using p(2,3) by (simp add: keep_sentence_def)
qed

theorem bullet_text_length_witness:
  "10 \<le> length (drop 2 (hd (py_split [newline] (summary_to_bullets ''A short one. No.''))))"
proof -
  have out: "summary_to_bullets ''A short one. No.'' = ''- A short one''" by code_simp
  have "\<forall>l \<in> set (py_split [newline] (summary_to_bullets ''A short one. No.'')).
          10 \<le> length (drop 2 l)"
    by (rule bullet_text_length) (simp add: out)
  moreover have "py_split [newline] ''- A short one'' = [''- A short one'']" by code_simp
  ultimately show ?thesis using out by simp
qed

end
