(* ===== verification/App.thy ===== *)
theory App
  imports Media Chunking Bullets
begin

text \<open>
  \<^verbatim>\<open>main()\<close> of \<^verbatim>\<open>src/main.py\<close> (lines 156-208): the Streamlit page that picks an
  input, puts it in a file, normalises and transcribes it, summarises the transcript and
  shows the bullets. The widgets' values are the input of a run (\<open>widgets\<close>); a run
  passes the file store and the page (\<open>app_state\<close>) through \<open>select_input\<close> (the three
  branches, lines 160-189) and \<open>process_file\<close> (lines 191-205), and threads the
  summariser's state. Streamlit runs the script again after every interaction, with an
  empty page and the files left by the previous runs: \<open>app_session\<close>.
\<close>

section \<open>The widgets\<close>

text \<open>
  What the widgets return in one run: the \<^verbatim>\<open>selectbox\<close> choice, the uploaded file (its
  name and \<^verbatim>\<open>getbuffer()\<close>) or \<^verbatim>\<open>None\<close>, the slider, the button, and the fresh stem
  \<^verbatim>\<open>tempfile\<close> draws for the run's temporary file.
\<close>

record widgets =
  option_choice :: string
  uploaded :: "(string \<times> bytes) option"
  slider_seconds :: int
  button_pressed :: bool
  tmp_stem :: string

text \<open>\<^verbatim>\<open>'.' + uploaded_file.name.split('.')[-1]\<close>: the split is never empty.\<close>

definition upload_suffix :: "string \<Rightarrow> string" where
  "upload_suffix name = ''.'' @ last (py_split ''.'' name)"

section \<open>Choosing the input\<close>

text \<open>
  Lines 160-189. The upload branches copy the buffer into a temporary file; the
  recording branch records into one and reports the requested duration; the video
  branch copies the video and extracts its audio track. \<open>Inr None\<close> is
  \<^verbatim>\<open>file_path = None\<close>.
\<close>

definition select_input :: "media \<Rightarrow> widgets \<Rightarrow> app_state \<Rightarrow> app_state \<times> (py_error + string option)" where
  "select_input md w st =
     (if option_choice w = ''Upload Audio'' then
        (case uploaded w of
           None \<Rightarrow> (st, Inr None)
         | Some (name, buffer) \<Rightarrow>
             (case named_temporary_file (tmp_stem w) (upload_suffix name) st of
                (tmp_name, st1) \<Rightarrow> (write_file tmp_name (Blob buffer) st1, Inr (Some tmp_name))))
      else if option_choice w = ''Record Audio'' then
        (if button_pressed w then
           (case named_temporary_file (tmp_stem w) ''.wav'' st of
              (tmp_name, st1) \<Rightarrow>
                (case record_audio md tmp_name (slider_seconds w) 1024 paInt16 1 16000 st1 of
                   (st2, Inl e) \<Rightarrow> (st2, Inl e)
                 | (st2, Inr _) \<Rightarrow>
                     (show_ui (Write (''Recorded audio for '' @ py_str_int (slider_seconds w) @
                                      '' seconds.'')) st2,
                      Inr (Some tmp_name))))
         else (st, Inr None))
      else if option_choice w = ''Upload Video'' then
        (case uploaded w of
           None \<Rightarrow> (st, Inr None)
         | Some (name, buffer) \<Rightarrow>
             (case named_temporary_file (tmp_stem w) (upload_suffix name) st of
                (video_file_path, st1) \<Rightarrow>
                  (case extract_audio_from_video md video_file_path
                          (write_file video_file_path (Blob buffer) st1) of
                     (st2, Inl e) \<Rightarrow> (st2, Inl e)
                   | (st2, Inr file_path) \<Rightarrow> (st2, Inr (Some file_path)))))
      else (st, Inr None))"

section \<open>Processing the file\<close>

text \<open>
  Lines 198-205 once the transcript is known: what is shown, in order; an exception of
  the summariser ends the run after what was already shown, with no summary.
\<close>

definition process_recording ::
  "'s summarizer \<Rightarrow> 's \<Rightarrow> string \<Rightarrow> 's \<times> ui_out list \<times> py_error option" where
  "process_recording summarizer st transcription =
     (let outs = [Write (newline # ''### Transcription Before Summarization:''),
                  Text transcription,
                  Write (newline # ''Summarizing transcription...'')]
      in case summarize_text summarizer st transcription of
           (st', Inl e) \<Rightarrow> (st', outs, Some e)
         | (st', Inr summary) \<Rightarrow>
             (st', outs @ [Write (newline # ''### Final Summary After Summarization:''),
                           Text (summary_to_bullets summary)], None))"

text \<open>
  Lines 191-205: \<^verbatim>\<open>if file_path:\<close> (a non-empty path), normalisation, the message,
  transcription of the normalised file, then the transcript and the summary.
\<close>

definition process_file ::
  "'s summarizer \<Rightarrow> media \<Rightarrow> 's \<Rightarrow> string \<Rightarrow> app_state \<Rightarrow> 's \<times> app_state \<times> py_error option" where
  "process_file summarizer md sst file_path st =
     (if file_path = [] then (sst, st, None)
      else
        (case preprocess_audio md file_path st of
           (st1, Inl e) \<Rightarrow> (sst, st1, Some e)
         | (st1, Inr processed_file_path) \<Rightarrow>
             (let st2 = show_ui (Write ''Transcribing audio...'') st1 in
              case transcribe_audio_file md processed_file_path st2 of
                Inl e \<Rightarrow> (sst, st2, Some e)
              | Inr transcription \<Rightarrow>
                  (case process_recording summarizer sst transcription of
                     (sst', outs, err) \<Rightarrow> (sst', st2\<lparr>shown := shown st2 @ outs\<rparr>, err)))))"

text \<open>Lines 156-205: one run of the script.\<close>

definition main_run ::
  "'s summarizer \<Rightarrow> media \<Rightarrow> widgets \<Rightarrow> 's \<Rightarrow> app_state \<Rightarrow> 's \<times> app_state \<times> py_error option" where
  "main_run summarizer md w sst st =
     (case select_input md w (show_ui (Title ''Audio/Video Transcription and Summarization'') st) of
        (st1, Inl e) \<Rightarrow> (sst, st1, Some e)
      | (st1, Inr None) \<Rightarrow> (sst, st1, None)
      | (st1, Inr (Some file_path)) \<Rightarrow> process_file summarizer md sst file_path st1)"

text \<open>
  Lines 207-208 under Streamlit: the script runs once per interaction, each time on an
  empty page, with the files the earlier runs left; an exception ends its run only.
\<close>

fun app_session :: "'s summarizer \<Rightarrow> media \<Rightarrow> 's \<Rightarrow> store \<Rightarrow> widgets list \<Rightarrow> 's \<times> store" where
  "app_session summarizer md sst files [] = (sst, files)"
| "app_session summarizer md sst files (w # ws) =
     (case main_run summarizer md w sst \<lparr>fs = files, shown = []\<rparr> of
        (sst', st', _) \<Rightarrow> app_session summarizer md sst' (fs st') ws)"

section \<open>Instruments for the examples\<close>

text \<open>
  Collaborators for the worked examples: a microphone of silence, a demuxer that fails
  on an empty video (no audio track) and otherwise writes a WAV file from the video's
  bytes, a normaliser that doubles the frames, and a recogniser whose single segment
  tells a recording of four bytes ("first video") from any other; and a summariser
  that returns each chunk unchanged.
\<close>

definition demo_media :: media where
  "demo_media =
     \<lparr>mic = \<lambda>_. replicate 2048 0,
      demux = (\<lambda>c. case c of
                 Blob b \<Rightarrow> if b = [] then Inl (ExternalError ''no audio track'')
                          else Inr \<lparr>nchannels = 1, sampwidth = 2, framerate = 16000, wframes = b @ b\<rparr>
               | Wave w \<Rightarrow> Inr \<lparr>nchannels = 1, sampwidth = 2, framerate = 16000,
                                wframes = wframes w @ wframes w\<rparr>),
      normalize_audio = (\<lambda>c. case c of
                 Blob b \<Rightarrow> Inr \<lparr>nchannels = 1, sampwidth = 2, framerate = 16000, wframes = b @ b\<rparr>
               | Wave w \<Rightarrow> Inr \<lparr>nchannels = 1, sampwidth = 2, framerate = 16000,
                                wframes = wframes w @ wframes w\<rparr>),
      whisper = (\<lambda>c. case c of
                 Blob _ \<Rightarrow> Inl (ExternalError ''not a WAV file'')
               | Wave w \<Rightarrow> Inr [\<lparr>ws_start = 0, ws_end = 1,
                                  ws_text = if length (wframes w) = 4 then ''first video''
                                            else ''second video''\<rparr>]),
      whisper_vad = (\<lambda>_. Inl (ExternalError ''not used'')),
      diarizer = (\<lambda>_. Inl (ExternalError ''not used''))\<rparr>"

definition echo_summarizer :: "nat summarizer" where
  "echo_summarizer st c max_length min_length do_sample = (st, Inr [[''summary_text'' \<mapsto> c]])"

section \<open>Properties of the runs\<close>

lemma process_recording_ok:
  assumes "\<forall>st c. \<exists>r rs. snd (summarizer st c 150 30 False) = Inr (r # rs) \<and>
                           r ''summary_text'' = Some (f c)"
  shows "\<exists>sst'. process_recording summarizer sst transcription =
           (sst', [Write (newline # ''### Transcription Before Summarization:''),
                   Text transcription,
                   Write (newline # ''Summarizing transcription...''),
                   Write (newline # ''### Final Summary After Summarization:''),
                   Text (summary_to_bullets (py_join '' '' (map f (chunks_from transcription 1000 0))))],
            None)"
  using summarize_text_ok [where summarizer = summarizer and f = f, OF assms, of sst transcription]
  by (cases "summarize_text summarizer sst transcription") (simp add: process_recording_def Let_def)

lemma process_recording_fail:
  assumes "transcription \<noteq> []" and "\<forall>st c. snd (summarizer st c 150 30 False) = Inl e"
  shows "\<exists>sst'. process_recording summarizer sst transcription =
           (sst', [Write (newline # ''### Transcription Before Summarization:''),
                   Text transcription,
                   Write (newline # ''Summarizing transcription...'')], Some e)"
  using summarize_text_fail [where summarizer = summarizer and e = e, OF assms, of sst]
  by (cases "summarize_text summarizer sst transcription") (simp add: process_recording_def Let_def)

lemma upload_suffix_nonempty: "upload_suffix name \<noteq> []"
  by (simp add: upload_suffix_def)

lemma select_input_upload_audio:
  assumes "option_choice w = ''Upload Audio''" "uploaded w = Some (name, buffer)"
  shows "select_input md w st =
           (st\<lparr>fs := (fs st)(tmp_stem w @ upload_suffix name \<mapsto> Blob buffer)\<rparr>,
            Inr (Some (tmp_stem w @ upload_suffix name)))"
  using assms by (simp add: select_input_def named_temporary_file_def)

lemma process_file_steps:
  assumes "file_path \<noteq> []" "fs st file_path = Some c" "normalize_audio md c = Inr audio"
    "whisper md (Wave audio) = Inr segments"
    "process_recording summarizer sst (transcribe_audio segments) = (sst', outs, err)"
  shows "process_file summarizer md sst file_path st =
           (sst', st\<lparr>fs := (fs st)(''normalized_'' @ py_basename file_path \<mapsto> Wave audio),
                     shown := shown st @ Write ''Transcribing audio...'' # outs\<rparr>, err)"
  using assms
  by (simp add: process_file_def preprocess_audio_def transcribe_audio_file_def read_file_def Let_def)

lemma select_input_upload_video:
  assumes "option_choice w = ''Upload Video''" "uploaded w = Some (name, buffer)"
  shows "select_input md w st =
           (case extract_audio_from_video md (tmp_stem w @ upload_suffix name)
                   (st\<lparr>fs := (fs st)(tmp_stem w @ upload_suffix name \<mapsto> Blob buffer)\<rparr>) of
              (st2, Inl e) \<Rightarrow> (st2, Inl e)
            | (st2, Inr file_path) \<Rightarrow> (st2, Inr (Some file_path)))"
  using assms by (simp add: select_input_def named_temporary_file_def)

lemma select_input_video_ok:
  assumes "option_choice w = ''Upload Video''" "uploaded w = Some (name, buffer)"
    and "demux md (Blob buffer) = Inr audio"
  shows "select_input md w st =
           (st\<lparr>fs := (fs st)(tmp_stem w @ upload_suffix name \<mapsto> Blob buffer,
                            ''extracted_audio.wav'' \<mapsto> Wave audio)\<rparr>,
            Inr (Some ''extracted_audio.wav''))"
  using assms select_input_upload_video [OF assms(1,2)]
  by (simp add: extract_audio_from_video_def read_file_def)

lemma select_input_dom [store_dom_intros]:
  "select_input md w st = (st', r) \<Longrightarrow> dom (fs st) \<subseteq> dom (fs st')"
  unfolding select_input_def named_temporary_file_def
  by (fastforce split: if_splits option.splits prod.splits sum.splits
                dest!: record_audio_dom extract_audio_from_video_dom)

lemma process_file_dom [store_dom_intros]:
  "process_file summarizer md sst p st = (sst', st', err) \<Longrightarrow> dom (fs st) \<subseteq> dom (fs st')"
  unfolding process_file_def Let_def
  by (fastforce split: if_splits prod.splits sum.splits dest!: preprocess_audio_dom)

lemma main_run_dom [store_dom_intros]:
  "main_run summarizer md w sst st = (sst', st', err) \<Longrightarrow> dom (fs st) \<subseteq> dom (fs st')"
  unfolding main_run_def
  by (fastforce split: prod.splits sum.splits option.splits dest!: select_input_dom process_file_dom)

lemma app_session_dom: "dom files \<subseteq> dom (snd (app_session summarizer md sst files ws))"
proof (induction ws arbitrary: sst files)
  case (Cons w ws)
  obtain sst' st' err where run: "main_run summarizer md w sst \<lparr>fs = files, shown = []\<rparr> = (sst', st', err)"
    by (metis prod.collapse)
  show ?case
    using main_run_dom [OF run] Cons.IH [where sst = sst' and files = "fs st'"] run by auto
qed simp

lemma select_input_upload_kept:
  assumes "option_choice w \<in> {''Upload Audio'', ''Upload Video''}" "uploaded w = Some (name, buffer)"
    and "select_input md w st = (st', r)"
  shows "tmp_stem w @ upload_suffix name \<in> dom (fs st')"
proof (cases "option_choice w = ''Upload Audio''")
  case True
  then show ?thesis using assms(2,3) by (auto simp: select_input_upload_audio)
next
  case False
  then have v: "option_choice w = ''Upload Video''" using assms(1) by simp
  show ?thesis
    using assms(3) unfolding select_input_upload_video [OF v assms(2)]
    by (fastforce split: prod.splits sum.splits dest!: extract_audio_from_video_dom)
qed

lemma main_run_upload_kept:
  assumes "option_choice w \<in> {''Upload Audio'', ''Upload Video''}" "uploaded w = Some (name, buffer)"
    and "main_run summarizer md w sst st = (sst', st', err)"
  shows "tmp_stem w @ upload_suffix name \<in> dom (fs st')"
  using assms(3) select_input_upload_kept [OF assms(1,2)] unfolding main_run_def
  by (fastforce split: prod.splits sum.splits option.splits dest!: process_file_dom)

lemma select_input_wf [store_wf_intros]:
  "select_input md w st = (st', r) \<Longrightarrow> media_wf md \<Longrightarrow> store_wf (fs st) \<Longrightarrow> store_wf (fs st')"
  unfolding select_input_def named_temporary_file_def
  by (auto simp: store_wf_blob split: if_splits option.splits prod.splits sum.splits
           elim!: record_audio_wf [unfolded One_nat_def] extract_audio_from_video_wf)

lemma process_file_wf [store_wf_intros]:
  "process_file summarizer md sst p st = (sst', st', err) \<Longrightarrow> media_wf md \<Longrightarrow> store_wf (fs st) \<Longrightarrow>
   store_wf (fs st')"
  unfolding process_file_def Let_def
  by (auto split: if_splits prod.splits sum.splits elim!: preprocess_audio_wf)

lemma main_run_wf [store_wf_intros]:
  "main_run summarizer md w sst st = (sst', st', err) \<Longrightarrow> media_wf md \<Longrightarrow> store_wf (fs st) \<Longrightarrow>
   store_wf (fs st')"
  unfolding main_run_def
  by (auto split: prod.splits sum.splits option.splits elim!: select_input_wf process_file_wf)

text \<open>C19: a run that uploads an audio file, with collaborators that succeed, reaches the
  final summary: the page shows the title, the progress message, the transcript of the
  normalised upload and the bullets of the per-chunk summaries joined in order, with no
  exception; the upload's temporary copy and its normalised export are on disk.\<close>

theorem main_run_upload_audio:
  assumes "option_choice w = ''Upload Audio''" "uploaded w = Some (name, buffer)"
    and "normalize_audio md (Blob buffer) = Inr audio" "whisper md (Wave audio) = Inr segments"
    and "\<forall>st c. \<exists>r rs. snd (summarizer st c 150 30 False) = Inr (r # rs) \<and>
                       r ''summary_text'' = Some (f c)"
  shows "snd (main_run summarizer md w sst st) =
           (st\<lparr>fs := (fs st)(tmp_stem w @ upload_suffix name \<mapsto> Blob buffer,
                            ''normalized_'' @ py_basename (tmp_stem w @ upload_suffix name) \<mapsto> Wave audio),
               shown := shown st @
                 [Title ''Audio/Video Transcription and Summarization'',
                  Write ''Transcribing audio...'',
                  Write (newline # ''### Transcription Before Summarization:''),
                  Text (transcribe_audio segments),
                  Write (newline # ''Summarizing transcription...''),
                  Write (newline # ''### Final Summary After Summarization:''),
                  Text (summary_to_bullets
                          (py_join '' '' (map f (chunks_from (transcribe_audio segments) 1000 0))))]\<rparr>,
            None)"
proof -
  obtain sst' where pr: "process_recording summarizer sst (transcribe_audio segments) =
           (sst', [Write (newline # ''### Transcription Before Summarization:''),
                   Text (transcribe_audio segments),
                   Write (newline # ''Summarizing transcription...''),
                   Write (newline # ''### Final Summary After Summarization:''),
                   Text (summary_to_bullets (py_join '' '' (map f (chunks_from (transcribe_audio segments) 1000 0))))],
            None)"
    using process_recording_ok [where summarizer = summarizer and f = f, OF assms(5)] by blast
  show ?thesis
    using assms(1-4) select_input_upload_audio [OF assms(1,2)] upload_suffix_nonempty
      process_file_steps [OF _ _ assms(3,4) pr]
    by (simp add: main_run_def)
qed

theorem main_run_upload_audio_witness:
  "snd (main_run echo_summarizer demo_media
          \<lparr>option_choice = ''Upload Audio'', uploaded = Some (''talk.mp3'', [7]),
           slider_seconds = 30, button_pressed = False, tmp_stem = ''/tmp/tmpq1''\<rparr>
          0 \<lparr>fs = Map.empty, shown = []\<rparr>) =
     (\<lparr>fs = Map.empty(''/tmp/tmpq1'' @ upload_suffix ''talk.mp3'' \<mapsto> Blob [7],
                      ''normalized_'' @ py_basename (''/tmp/tmpq1'' @ upload_suffix ''talk.mp3'') \<mapsto>
                        Wave \<lparr>nchannels = 1, sampwidth = 2, framerate = 16000, wframes = [7, 7]\<rparr>),
       shown = [Title ''Audio/Video Transcription and Summarization'',
                Write ''Transcribing audio...'',
                Write (newline # ''### Transcription Before Summarization:''),
                Text (transcribe_audio [\<lparr>ws_start = 0, ws_end = 1, ws_text = ''second video''\<rparr>]),
                Write (newline # ''Summarizing transcription...''),
                Write (newline # ''### Final Summary After Summarization:''),
                Text (summary_to_bullets (py_join '' '' (map id (chunks_from
                  (transcribe_audio [\<lparr>ws_start = 0, ws_end = 1, ws_text = ''second video''\<rparr>]) 1000 0))))]\<rparr>,
      None)"
proof -
  have n: "normalize_audio demo_media (Blob [7]) = Inr \<lparr>nchannels = 1, sampwidth = 2, framerate = 16000, wframes = [7, 7]\<rparr>"
    by (simp add: demo_media_def)
  have w: "whisper demo_media (Wave \<lparr>nchannels = 1, sampwidth = 2, framerate = 16000, wframes = [7, 7]\<rparr>) = Inr [\<lparr>ws_start = 0, ws_end = 1, ws_text = ''second video''\<rparr>]"
    by (simp add: demo_media_def)
  show ?thesis
    using n w main_run_upload_audio
          [of "\<lparr>option_choice = ''Upload Audio'', uploaded = Some (''talk.mp3'', [7]),
                slider_seconds = 30, button_pressed = False, tmp_stem = ''/tmp/tmpq1''\<rparr>"
              "''talk.mp3''" "[7]" demo_media "\<lparr>nchannels = 1, sampwidth = 2, framerate = 16000, wframes = [7, 7]\<rparr>"
              "[\<lparr>ws_start = 0, ws_end = 1, ws_text = ''second video''\<rparr>]" echo_summarizer id 0
              "\<lparr>fs = Map.empty, shown = []\<rparr>"]
    by (simp add: echo_summarizer_def)
qed

text \<open>C20: when the summariser raises on every chunk, a run that uploads an audio file
  ends with that exception after the transcript has been shown: no summary heading and
  no bullets are shown, and the files written before the failure stay on disk.\<close>

theorem main_run_summarizer_failure:
  assumes "option_choice w = ''Upload Audio''" "uploaded w = Some (name, buffer)"
    and "normalize_audio md (Blob buffer) = Inr audio" "whisper md (Wave audio) = Inr segments"
    and "segments \<noteq> []" "\<forall>st c. snd (summarizer st c 150 30 False) = Inl e"
  shows "snd (main_run summarizer md w sst st) =
           (st\<lparr>fs := (fs st)(tmp_stem w @ upload_suffix name \<mapsto> Blob buffer,
                            ''normalized_'' @ py_basename (tmp_stem w @ upload_suffix name) \<mapsto> Wave audio),
               shown := shown st @
                 [Title ''Audio/Video Transcription and Summarization'',
                  Write ''Transcribing audio...'',
                  Write (newline # ''### Transcription Before Summarization:''),
                  Text (transcribe_audio segments),
                  Write (newline # ''Summarizing transcription...'')]\<rparr>,
            Some e)"
proof -
  obtain sst' where pr: "process_recording summarizer sst (transcribe_audio segments) =
           (sst', [Write (newline # ''### Transcription Before Summarization:''),
                   Text (transcribe_audio segments),
                   Write (newline # ''Summarizing transcription...'')], Some e)"
    using process_recording_fail [where summarizer = summarizer and e = e,
            OF transcribe_audio_nonempty [OF assms(5)] assms(6)] by blast
  show ?thesis
    using assms(1-4) select_input_upload_audio [OF assms(1,2)] upload_suffix_nonempty
      process_file_steps [OF _ _ assms(3,4) pr]
    by (simp add: main_run_def)
qed

theorem main_run_summarizer_failure_witness:
  "snd (main_run (\<lambda>st c _ _ _. (st, Inl (ExternalError ''CUDA out of memory''))) demo_media
          \<lparr>option_choice = ''Upload Audio'', uploaded = Some (''talk.mp3'', [7]),
                slider_seconds = 30, button_pressed = False, tmp_stem = ''/tmp/tmpq1''\<rparr>
          (0::nat) \<lparr>fs = Map.empty, shown = []\<rparr>) =
     (\<lparr>fs = Map.empty(''/tmp/tmpq1'' @ upload_suffix ''talk.mp3'' \<mapsto> Blob [7],
                      ''normalized_'' @ py_basename (''/tmp/tmpq1'' @ upload_suffix ''talk.mp3'') \<mapsto>
                        Wave \<lparr>nchannels = 1, sampwidth = 2, framerate = 16000, wframes = [7, 7]\<rparr>),
       shown = [Title ''Audio/Video Transcription and Summarization'',
                Write ''Transcribing audio...'',
                Write (newline # ''### Transcription Before Summarization:''),
                Text (transcribe_audio [\<lparr>ws_start = 0, ws_end = 1, ws_text = ''second video''\<rparr>]),
                Write (newline # ''Summarizing transcription...'')]\<rparr>,
      Some (ExternalError ''CUDA out of memory''))"
proof -
  have n: "normalize_audio demo_media (Blob [7]) = Inr \<lparr>nchannels = 1, sampwidth = 2, framerate = 16000, wframes = [7, 7]\<rparr>"
    by (simp add: demo_media_def)
  have w: "whisper demo_media (Wave \<lparr>nchannels = 1, sampwidth = 2, framerate = 16000, wframes = [7, 7]\<rparr>) = Inr [\<lparr>ws_start = 0, ws_end = 1, ws_text = ''second video''\<rparr>]"
    by (simp add: demo_media_def)
  show ?thesis
    using n w main_run_summarizer_failure
          [of "\<lparr>option_choice = ''Upload Audio'', uploaded = Some (''talk.mp3'', [7]),
                slider_seconds = 30, button_pressed = False, tmp_stem = ''/tmp/tmpq1''\<rparr>"
              "''talk.mp3''" "[7]" demo_media "\<lparr>nchannels = 1, sampwidth = 2, framerate = 16000, wframes = [7, 7]\<rparr>"
              "[\<lparr>ws_start = 0, ws_end = 1, ws_text = ''second video''\<rparr>]"
              "\<lambda>st c _ _ _. (st, Inl (ExternalError ''CUDA out of memory''))"
              "ExternalError ''CUDA out of memory''" "0::nat" "\<lparr>fs = Map.empty, shown = []\<rparr>"]
    by simp
qed

text \<open>C25: a video whose audio cannot be extracted (no audio track) ends the run with
  the demuxer's exception right after the title; the uploaded video's temporary copy
  stays on disk and nothing else is written.\<close>

theorem main_run_video_without_audio:
  assumes "option_choice w = ''Upload Video''" "uploaded w = Some (name, buffer)"
    and "demux md (Blob buffer) = Inl e"
  shows "snd (main_run summarizer md w sst st) =
           (st\<lparr>fs := (fs st)(tmp_stem w @ upload_suffix name \<mapsto> Blob buffer),
               shown := shown st @ [Title ''Audio/Video Transcription and Summarization'']\<rparr>, Some e)"
  using assms select_input_upload_video [OF assms(1,2)]
  by (simp add: main_run_def extract_audio_from_video_def read_file_def)

theorem main_run_video_without_audio_witness:
  "snd (main_run echo_summarizer demo_media
          \<lparr>option_choice = ''Upload Video'', uploaded = Some (''silent.mp4'', []),
                slider_seconds = 30, button_pressed = False, tmp_stem = ''/tmp/tmpv0''\<rparr>
          0 \<lparr>fs = Map.empty, shown = []\<rparr>) =
     (\<lparr>fs = Map.empty(''/tmp/tmpv0'' @ upload_suffix ''silent.mp4'' \<mapsto> Blob []),
       shown = [Title ''Audio/Video Transcription and Summarization'']\<rparr>,
      Some (ExternalError ''no audio track''))"
proof -
  have d: "demux demo_media (Blob []) = Inl (ExternalError ''no audio track'')"
    by (simp add: demo_media_def)
  show ?thesis
    using d main_run_video_without_audio
          [of "\<lparr>option_choice = ''Upload Video'', uploaded = Some (''silent.mp4'', []),
                slider_seconds = 30, button_pressed = False, tmp_stem = ''/tmp/tmpv0''\<rparr>"
              "''silent.mp4''" "[]" demo_media "ExternalError ''no audio track''" echo_summarizer 0
              "\<lparr>fs = Map.empty, shown = []\<rparr>"]
    by simp
qed

text \<open>C27: two sessions that process videos at the same time share the files
  "extracted_audio.wav" and "normalized_extracted_audio.wav" of the working directory.
  When the second session extracts its audio between the first session's extraction
  and its normalisation, the first session transcribes and shows the second session's
  audio, although the spec (section 5) says concurrent runs share no mutable state.\<close>

theorem concurrent_video_runs_swap_audio:
  assumes "option_choice wA = ''Upload Video''" "uploaded wA = Some (nameA, videoA)"
    and "option_choice wB = ''Upload Video''" "uploaded wB = Some (nameB, videoB)"
    and "demux md (Blob videoA) = Inr audioA" "demux md (Blob videoB) = Inr audioB"
    and "normalize_audio md (Wave audioB) = Inr normalB" "whisper md (Wave normalB) = Inr segmentsB"
  shows "\<exists>stA stB. select_input md wA st = (stA, Inr (Some ''extracted_audio.wav'')) \<and>
                   select_input md wB stA = (stB, Inr (Some ''extracted_audio.wav'')) \<and>
                   Text (transcribe_audio segmentsB) \<in>
                     set (shown (fst (snd (process_file summarizer md sst ''extracted_audio.wav'' stB))))"
proof -
  let ?stA = "st\<lparr>fs := (fs st)(tmp_stem wA @ upload_suffix nameA \<mapsto> Blob videoA,
                                ''extracted_audio.wav'' \<mapsto> Wave audioA)\<rparr>"
  let ?stB = "?stA\<lparr>fs := (fs ?stA)(tmp_stem wB @ upload_suffix nameB \<mapsto> Blob videoB,
                                  ''extracted_audio.wav'' \<mapsto> Wave audioB)\<rparr>"
  have a: "select_input md wA st = (?stA, Inr (Some ''extracted_audio.wav''))"
    using assms(1,2,5) by (rule select_input_video_ok)
  have b: "select_input md wB ?stA = (?stB, Inr (Some ''extracted_audio.wav''))"
    using assms(3,4,6) by (rule select_input_video_ok)
  obtain sst' outs err where pr: "process_recording summarizer sst (transcribe_audio segmentsB) = (sst', outs, err)"
    by (metis prod.collapse)
  have "Text (transcribe_audio segmentsB) \<in> set outs"
    using pr by (auto simp: process_recording_def Let_def split: prod.splits sum.splits)
  moreover have "process_file summarizer md sst ''extracted_audio.wav'' ?stB =
           (sst', ?stB\<lparr>fs := (fs ?stB)(''normalized_'' @ py_basename ''extracted_audio.wav'' \<mapsto> Wave normalB),
                      shown := shown ?stB @ Write ''Transcribing audio...'' # outs\<rparr>, err)"
    by (rule process_file_steps [OF _ _ assms(7,8) pr]) simp_all
  ultimately show ?thesis using a b by auto
qed

theorem concurrent_video_runs_swap_audio_witness:
  "\<exists>stA stB.
     select_input demo_media \<lparr>option_choice = ''Upload Video'', uploaded = Some (''a.mp4'', [1]),
                slider_seconds = 30, button_pressed = False, tmp_stem = ''/tmp/tmpA''\<rparr>
       \<lparr>fs = Map.empty, shown = []\<rparr> = (stA, Inr (Some ''extracted_audio.wav'')) \<and>
     select_input demo_media \<lparr>option_choice = ''Upload Video'', uploaded = Some (''b.mp4'', [2, 2]),
                slider_seconds = 30, button_pressed = False, tmp_stem = ''/tmp/tmpB''\<rparr>
       stA = (stB, Inr (Some ''extracted_audio.wav'')) \<and>
     Text (transcribe_audio [\<lparr>ws_start = 0, ws_end = 1, ws_text = ''second video''\<rparr>]) \<in>
       set (shown (fst (snd (process_file echo_summarizer demo_media 0 ''extracted_audio.wav'' stB))))"
  by (rule concurrent_video_runs_swap_audio
        [where audioA = "\<lparr>nchannels = 1, sampwidth = 2, framerate = 16000, wframes = [1, 1]\<rparr>"
           and audioB = "\<lparr>nchannels = 1, sampwidth = 2, framerate = 16000, wframes = [2, 2, 2, 2]\<rparr>"
           and normalB = "\<lparr>nchannels = 1, sampwidth = 2, framerate = 16000,
                          wframes = [2, 2, 2, 2, 2, 2, 2, 2]\<rparr>"])
     (simp_all add: demo_media_def, (simp add: demo_media_def)+)

text \<open>C28: temporary files are never removed. Whatever the later runs of a session do,
  the temporary copy of every file uploaded in it (audio or video) is still on disk at
  the end, although the spec (section 3) says no entity persists beyond a run.\<close>

theorem app_session_keeps_uploads:
  assumes "w \<in> set ws" "option_choice w \<in> {''Upload Audio'', ''Upload Video''}"
    and "uploaded w = Some (name, buffer)"
  shows "tmp_stem w @ upload_suffix name \<in> dom (snd (app_session summarizer md sst files ws))"
  using assms(1)
proof (induction ws arbitrary: sst files)
  case (Cons v ws)
  obtain sst' st' err where run: "main_run summarizer md v sst \<lparr>fs = files, shown = []\<rparr> = (sst', st', err)"
    by (metis prod.collapse)
  show ?case
  proof (cases "v = w")
    case True
    have "tmp_stem w @ upload_suffix name \<in> dom (fs st')"
      using main_run_upload_kept [OF assms(2,3) run [unfolded True]] .
    then show ?thesis
      using app_session_dom [of "fs st'" summarizer md sst' ws] run by auto
  next
    case False
    then show ?thesis using Cons run by simp
  qed
qed simp

theorem app_session_keeps_uploads_witness:
  "''/tmp/tmpq1'' @ upload_suffix ''talk.mp3'' \<in>
     dom (snd (app_session echo_summarizer demo_media 0 Map.empty
                 [\<lparr>option_choice = ''Upload Audio'', uploaded = Some (''talk.mp3'', [7]),
                slider_seconds = 30, button_pressed = False, tmp_stem = ''/tmp/tmpq1''\<rparr>,
                  \<lparr>option_choice = ''Record Audio'', uploaded = None,
                slider_seconds = 5, button_pressed = True, tmp_stem = ''/tmp/tmpr5''\<rparr>]))"
  using app_session_keeps_uploads
          [of "\<lparr>option_choice = ''Upload Audio'', uploaded = Some (''talk.mp3'', [7]),
                slider_seconds = 30, button_pressed = False, tmp_stem = ''/tmp/tmpq1''\<rparr>"
              "[\<lparr>option_choice = ''Upload Audio'', uploaded = Some (''talk.mp3'', [7]),
                slider_seconds = 30, button_pressed = False, tmp_stem = ''/tmp/tmpq1''\<rparr>,
                \<lparr>option_choice = ''Record Audio'', uploaded = None,
                slider_seconds = 5, button_pressed = True, tmp_stem = ''/tmp/tmpr5''\<rparr>]"
              "''talk.mp3''" "[7]" echo_summarizer demo_media 0 Map.empty]
  by simp

text \<open>C29: the files of the store keep their type. When the microphone delivers its
  chunks in full and the demuxer and normaliser write well-formed WAV files, every WAV
  file on disk after any sequence of runs is well formed: positive header fields and
  frame data that is a whole number of frames.\<close>

theorem app_session_wf:
  assumes "media_wf md" "store_wf files"
  shows "store_wf (snd (app_session summarizer md sst files ws))"
  using assms(2)
proof (induction ws arbitrary: sst files)
  case (Cons w ws)
  obtain sst' st' err where run: "main_run summarizer md w sst \<lparr>fs = files, shown = []\<rparr> = (sst', st', err)"
    by (metis prod.collapse)
  have "store_wf (fs st')" using main_run_wf [OF run assms(1)] Cons.prems by simp
  then show ?case using Cons.IH run by simp
qed simp

theorem app_session_wf_witness:
  "store_wf (snd (app_session echo_summarizer demo_media 0 Map.empty
                    [\<lparr>option_choice = ''Record Audio'', uploaded = None,
                slider_seconds = 5, button_pressed = True, tmp_stem = ''/tmp/tmpr5''\<rparr>,
                     \<lparr>option_choice = ''Upload Audio'', uploaded = Some (''talk.mp3'', [7]),
                slider_seconds = 30, button_pressed = False, tmp_stem = ''/tmp/tmpq1''\<rparr>]))"
  by (rule app_session_wf)
     (simp_all add: media_wf_def demo_media_def wave_wf_def store_wf_def split: file_content.splits)

end
