(* ===== verification/Spec2Isabelle.thy ===== *)
theory Spec2Isabelle
  imports App
begin

text \<open>
  \<^bold>\<open>What is verified.\<close> \<^verbatim>\<open>src/main.py\<close> is a Streamlit application that
  records or uploads audio (or extracts it from a video), normalises it, transcribes
  it with Whisper, summarises the transcript with a BART pipeline chunk by chunk, and
  turns the summary into bullet points. A second transcription mode attributes each
  transcribed segment to a speaker of a pyannote diarization after widening the speaker
  turns by a margin. The program's algorithmic core is pure string and interval
  processing around three external models; this development models that core from the
  source, line by line, and treats the models as collaborators given as inputs.

  \<^bold>\<open>Theories and how they map to the code.\<close>
  \<^item> \<open>Prelude\<close>: times as exact rationals (\<open>time = rat\<close>; a Python float is a dyadic
    rational, and the model's arithmetic on it is exact), Python exceptions as the
    datatype \<open>py_error\<close> (\<open>ValueError\<close>, \<open>IndexError\<close>, \<open>KeyError\<close>,
    \<open>ZeroDivisionError\<close>, \<open>FileNotFoundError\<close>, \<open>ExternalError\<close>) returned as
    \<open>Inl\<close>, the named collections of facts and generic list facts.
  \<^item> \<open>PyStr\<close>: the CPython builtins the code calls: \<open>py_isspace\<close> (\<^verbatim>\<open>\s\<close> and
    \<^verbatim>\<open>str.isspace\<close>), \<open>py_isword\<close> (\<^verbatim>\<open>\w\<close>), \<open>py_lower\<close> (\<^verbatim>\<open>re.IGNORECASE\<close>),
    \<open>py_strip\<close>, \<open>py_join\<close>, \<open>py_split\<close> and \<open>py_fmt2\<close> (\<^verbatim>\<open>%.2f\<close>: round half to
    even on the exact value, sign kept). Characters are code points below 256, with
    CPython's classes for that range. \<open>py_str_int\<close> is \<^verbatim>\<open>str\<close> of an int.
  \<^item> \<open>Alignment\<close>: \<^verbatim>\<open>extend_diarization_boundaries\<close> (lines 69-75) as
    \<open>extend_turn\<close>/\<open>extend_diarization_boundaries\<close> over the list of
    \<^verbatim>\<open>(turn, track, speaker)\<close> triples that \<^verbatim>\<open>itertracks\<close> yields; the first-match
    loop with \<^verbatim>\<open>break\<close> of \<^verbatim>\<open>transcribe_with_speaker\<close> (lines 88-94) as
    \<open>match_speaker\<close>, and the spec's attribution \<open>attribute\<close> (first overlapping turn,
    \<open>None\<close> for "unknown") it refines.
  \<^item> \<open>Transcript\<close>: \<^verbatim>\<open>transcribe_with_speaker\<close> (lines 78-99) and
    \<^verbatim>\<open>transcribe_audio\<close> (lines 112 and 117-121; the model construction of
    lines 103-109 is not modelled) as accumulator loops
    (\<open>transcribe_segments\<close>, \<open>transcribe_audio_segments\<close>) over the Whisper segments
    (\<open>wsegment\<close>), which are the input; the spec's align-then-render decomposition
    (\<open>align\<close>, \<open>spec_line\<close>).
  \<^item> \<open>Chunking\<close>: \<^verbatim>\<open>summarize_text\<close> and its \<^verbatim>\<open>split_text\<close> (lines 128-140;
    the device choice and pipeline construction of lines 125-126 are not modelled).
    \<open>chunks_from\<close> is the comprehension over \<^verbatim>\<open>range(0, len(text), chunk_size)\<close>;
    \<open>split_text\<close> adds the \<^verbatim>\<open>ValueError\<close> of a zero step and the empty range of a
    negative one. The summarisation pipeline is a collaborator of type
    \<open>'s summarizer\<close>: it threads a state of its own and returns an exception or a
    list of result dictionaries, so failures, empty results (\<^verbatim>\<open>IndexError\<close>) and
    missing keys (\<^verbatim>\<open>KeyError\<close>) are branches of \<open>first_summary\<close>, the decoding
    \<^verbatim>\<open>summary[0]['summary_text']\<close> of line 137, called by \<open>summarize_chunk\<close>; the loop
    \<open>summarize_chunks\<close> stops at the first exception. \<open>logged\<close> wraps a collaborator so
    that its state records the calls, which makes their order observable.
  \<^item> \<open>Cleaner\<close>: \<^verbatim>\<open>clean_summary_text\<close> (lines 143-146). The filler regex is the
    left-to-right scan of \<^verbatim>\<open>re.sub\<close> (\<open>sub_fillers\<close>, \<open>filler_match\<close>), with
    \<^verbatim>\<open>\b\<close> read in the original string (\<open>word_boundary\<close>) and the alternatives tried in
    the pattern's order; \<open>collapse_ws\<close> is the whitespace regex.
  \<^item> \<open>Bullets\<close>: \<^verbatim>\<open>summary_to_bullets\<close> (lines 149-153).
  \<^item> \<open>Media\<close>: the input side. The file system is an explicit store
    (\<open>store\<close>, paths to \<open>Blob\<close> bytes or \<open>Wave\<close> files) and the page the list of
    \<open>ui_out\<close> items shown, together \<open>app_state\<close>. \<^verbatim>\<open>record_audio\<close> (lines 19-43),
    \<^verbatim>\<open>preprocess_audio\<close> (46-51, with \<open>py_basename\<close>),
    \<^verbatim>\<open>extract_audio_from_video\<close> (54-58), \<^verbatim>\<open>diarize_audio\<close> (61-66) and the
    file-reading parts of both transcription functions take and return the state. The
    microphone, demuxer, normaliser, the two Whisper calls and the pyannote pipeline are
    the collaborators of \<open>media\<close>, each able to raise except the microphone, whose
    reads always succeed (device errors are not modelled); a missing file is
    \<open>FileNotFoundError\<close>, a zero chunk \<open>ZeroDivisionError\<close>.
  \<^item> \<open>App\<close>: \<^verbatim>\<open>main()\<close> (lines 156-205) as \<open>main_run\<close>: \<open>select_input\<close> (the
    three branches of lines 160-189, with \<^verbatim>\<open>NamedTemporaryFile\<close> as
    \<open>named_temporary_file\<close> and the widget values as \<open>widgets\<close>), then
    \<open>process_file\<close> (191-205) and \<open>process_recording\<close> (198-205). Streamlit's
    re-running of the script (lines 207-208) is \<open>app_session\<close>: one run per widget
    state, each on an empty page, with the files the earlier runs left.
  \<^item> this theory: the header.

  \<^bold>\<open>What the lemmas show.\<close> The matcher is a first match in list order and refines
  the spec's attribution; the labelled transcript is exactly one line per segment in
  segment order (a roundtrip through splitting on newlines), and the unlabelled one has
  one "[s -> e] text" line per segment whose printed times read back within 0.005 of the
  segment's times; the extender keeps valid spans valid and containing the original for
  non-negative margins, while for a negative margin exactly the turns shorter than twice
  the margin come out malformed; widening the margin never loses an attribution, and
  with no overlapping turn every segment is "Unknown". Any candidate list that keeps the
  overlapping turns in order attributes as the full scan does (the contract of an
  interval index). Chunking is lossless, with exact chunk counts and sizes; the driver
  calls the collaborator once per chunk in chunk order and, with the log of calls, either
  joins every summary in order or stops at the first failing chunk, after which it makes
  no call; a failure at any chunk makes the whole result that failure, and an empty
  result list is an IndexError. The cleaner's output is in whitespace normal form, its
  whitespace stage leaves exactly the normal strings unchanged, fillers are removed only
  as whole words, in any letter case, and longer words are kept. The bullet formatter's
  output lines all start with "- " and carry at least 10 characters of text. A run that
  uploads audio reaches the final summary and shows exactly the title, the transcript of
  the normalised upload and the bullets; a summariser failure stops it after the
  transcript, and a video without audio right after the title. A recording lasts at most
  the requested time and less than one chunk (64 ms) short of it. Over any session of
  runs no file is ever removed, every uploaded file's temporary copy stays on disk, and
  every WAV file stays well formed (\<open>store_wf\<close>, given the collaborators' contract
  \<open>media_wf\<close>).

  \<^bold>\<open>Divergences found\<close> (closed theorems at concrete inputs): the cleaner is not
  idempotent ("you um know"); the bullet threshold is tested before trimming; the spec's
  bullet scenario gives two bullets without the period; the unlabelled transcript
  writes "0.00s"; a negative margin yields malformed spans and a negative chunk size
  drops the text, both unchecked; a label equal to "unknown" breaks monotone coverage;
  two sessions processing videos at once share "extracted_audio.wav", so one can show
  the other's transcript; temporary and normalised files persist across runs; a
  recording of 30 seconds holds 468 chunks (29.952 s) while the page reports 30.

  \<^bold>\<open>Bounds and fuel.\<close> Every loop of the program runs over a finite list, so every
  function is total: structural recursion, or \<^theory_text>\<open>function\<close> with a measure on the
  remaining length (\<open>py_split_aux\<close>, \<open>chunks_from\<close>, \<open>sub_fillers\<close>,
  \<open>collapse_ws\<close>); no fuel is needed. The constants of the source (margin 0.5,
  chunk size 1000, lengths 150 and 30, threshold 10, 1024-frame chunks of 16-bit mono
  at 16000 Hz) are kept as written. The recording loop's bound
  \<^verbatim>\<open>int(rate / chunk * record_seconds)\<close> is computed exactly, as the float
  arithmetic is for the application's arguments.

  \<^bold>\<open>Not modelled.\<close> What the libraries do inside: the audio device and WAV
  header bytes (a \<open>Wave\<close> value stands for the file), pydub's normalisation, moviepy's
  demuxing, and the diarization, speech and summarisation models, whose results are
  the collaborators' outputs; loading the models and choosing the device; the console
  \<^verbatim>\<open>print\<close> of the detected language; the rendering of the widgets themselves
  (their values are inputs). IEEE rounding of the time arithmetic is not modelled
  (times are exact rationals), and characters are limited to code points below 256.
\<close>

end
